theory Spec2Isabelle
  imports Main "HOL-Library.Sublist"
begin

section \<open>The feedback board page: \<open>src/app/[slug]/board/page.tsx\<close>\<close>

text \<open>
  The page is a React component. Its logic is embedded as follows.
  \<^item> Values that arrive from the backend are typed \<^verbatim>\<open>unknown\<close> or \<^verbatim>\<open>any\<close> in the
    source, and the casts \<^verbatim>\<open>as string\<close> are erased when the page runs: such values are
    modelled by the type \<open>jsval\<close> of JavaScript values, with the language's rules for
    truthiness, property reads, optional chaining, \<^verbatim>\<open>||\<close> and \<^verbatim>\<open>===\<close> written out.
  \<^item> Every \<^verbatim>\<open>useState\<close> slot is a field of the record \<open>page_state\<close>; a state setter is
    a record update.
  \<^item> Toasts, navigation, console output and the queries sent to the backend are
    appended to a list of effects, in the order the source performs them.
  \<^item> A JavaScript exception is the value \<open>Inl\<close> of a sum type.
\<close>

subsection \<open>JavaScript values\<close>

text \<open>
  Numbers are the integers (row counts and JSON integers; fractions and \<^verbatim>\<open>NaN\<close> are
  outside the model). Arrays and objects carry the address of the heap cell that holds
  them, because \<^verbatim>\<open>===\<close> compares references, not contents. An object is the list of
  its own properties.
\<close>

datatype jsval =
    JUndefined
  | JNull
  | JBool bool
  | JNum int
  | JStr string
  | JArr nat "jsval list"
  | JObj nat "(string \<times> jsval) list"

datatype js_exn = TypeError | Rejected

fun nullish :: "jsval \<Rightarrow> bool" where
  "nullish JUndefined = True"
| "nullish JNull = True"
| "nullish _ = False"

text \<open>\<^verbatim>\<open>ToBoolean\<close>: the falsy values are undefined, null, false, 0 and the empty string.\<close>

fun truthy :: "jsval \<Rightarrow> bool" where
  "truthy JUndefined = False"
| "truthy JNull = False"
| "truthy (JBool b) = b"
| "truthy (JNum n) = (n \<noteq> 0)"
| "truthy (JStr s) = (s \<noteq> [])"
| "truthy (JArr a xs) = True"
| "truthy (JObj a fs) = True"

text \<open>
  Reading a named property of a value that is not null or undefined. The names the page
  reads (\<^verbatim>\<open>id\<close>, \<^verbatim>\<open>title\<close>, \<^verbatim>\<open>count\<close>, ...) are not built-in properties of arrays, strings,
  numbers or booleans, so on those the read gives undefined.
\<close>

fun get :: "jsval \<Rightarrow> string \<Rightarrow> jsval" where
  "get (JObj a fs) k = (case map_of fs k of Some v \<Rightarrow> v | None \<Rightarrow> JUndefined)"
| "get _ k = JUndefined"

text \<open>The read \<^verbatim>\<open>x[0]\<close> of a value that is not null or undefined.\<close>

fun index0 :: "jsval \<Rightarrow> jsval" where
  "index0 (JArr a xs) = (case xs of [] \<Rightarrow> JUndefined | x # _ \<Rightarrow> x)"
| "index0 (JStr s) = (case s of [] \<Rightarrow> JUndefined | c # _ \<Rightarrow> JStr [c])"
| "index0 (JObj a fs) = get (JObj a fs) ''0''"
| "index0 _ = JUndefined"

text \<open>\<^verbatim>\<open>x.k\<close> throws a TypeError on null and undefined; \<^verbatim>\<open>x?.k\<close> and \<^verbatim>\<open>x?.[0]\<close> give undefined there.\<close>

definition member :: "jsval \<Rightarrow> string \<Rightarrow> js_exn + jsval" where
  "member x k = (if nullish x then Inl TypeError else Inr (get x k))"

definition opt_member :: "jsval \<Rightarrow> string \<Rightarrow> jsval" where
  "opt_member x k = (if nullish x then JUndefined else get x k)"

definition opt_index0 :: "jsval \<Rightarrow> jsval" where
  "opt_index0 x = (if nullish x then JUndefined else index0 x)"

text \<open>\<^verbatim>\<open>a || b\<close>, both operands already evaluated (used where \<open>b\<close> is a literal).\<close>

definition js_or :: "jsval \<Rightarrow> jsval \<Rightarrow> jsval" where
  "js_or a b = (if truthy a then a else b)"

text \<open>\<^verbatim>\<open>a === b\<close>: equality of primitives of the same type, identity of references.\<close>

fun strict_eq :: "jsval \<Rightarrow> jsval \<Rightarrow> bool" where
  "strict_eq JUndefined JUndefined = True"
| "strict_eq JNull JNull = True"
| "strict_eq (JBool a) (JBool b) = (a = b)"
| "strict_eq (JNum a) (JNum b) = (a = b)"
| "strict_eq (JStr a) (JStr b) = (a = b)"
| "strict_eq (JArr a xs) (JArr b ys) = (a = b)"
| "strict_eq (JObj a fs) (JObj b gs) = (a = b)"
| "strict_eq _ _ = False"

subsection \<open>The view model \<open>Post\<close> and the mapper\<close>

text \<open>
  \<^verbatim>\<open>interface Post\<close>. The six fields copied from a backend row hold whatever value the
  row had; \<open>vote_count\<close> and \<open>comment_count\<close> hold the result of \<^verbatim>\<open>... || 0\<close>; only
  \<open>user_voted\<close> is always written by typed code. The field \<^verbatim>\<open>id\<close> is named \<open>post_id\<close>.
\<close>

record post =
  post_id :: jsval
  title :: jsval
  description :: jsval
  author_email :: jsval
  status :: jsval
  created_at :: jsval
  vote_count :: jsval
  comment_count :: jsval
  user_voted :: bool

text \<open>
  The callback of \<^verbatim>\<open>postsData?.map\<close> (lines 157-167). Its parameter is a row of the
  response. The first read \<^verbatim>\<open>post.id\<close> throws when the row is null or undefined;
  nothing after it can throw.
\<close>

definition processPost :: "jsval \<Rightarrow> js_exn + post" where
  "processPost row =
     (if nullish row then Inl TypeError
      else Inr \<lparr>
        post_id = get row ''id'',
        title = get row ''title'',
        description = get row ''description'',
        author_email = get row ''author_email'',
        status = get row ''status'',
        created_at = get row ''created_at'',
        vote_count =
          js_or (opt_member (opt_index0 (get row ''vote_count'')) ''count'') (JNum 0),
        comment_count =
          js_or (opt_member (opt_index0 (get row ''comment_count'')) ''count'') (JNum 0),
        user_voted = False \<rparr>)"

text \<open>\<^verbatim>\<open>Array.prototype.map\<close> with a callback that may throw: the first exception ends it.\<close>

fun map_rows :: "jsval list \<Rightarrow> js_exn + post list" where
  "map_rows [] = Inr []"
| "map_rows (r # rs) =
     (case processPost r of
        Inl e \<Rightarrow> Inl e
      | Inr p \<Rightarrow> (case map_rows rs of Inl e \<Rightarrow> Inl e | Inr ps \<Rightarrow> Inr (p # ps)))"

text \<open>
  \<^verbatim>\<open>postsData?.map(...) || []\<close>: no array when the data is null or undefined, a
  TypeError when the data is a value without a \<^verbatim>\<open>map\<close> method.
\<close>

fun processedPosts :: "jsval \<Rightarrow> js_exn + post list" where
  "processedPosts JUndefined = Inr []"
| "processedPosts JNull = Inr []"
| "processedPosts (JArr a rows) = map_rows rows"
| "processedPosts _ = Inl TypeError"

subsection \<open>The page state\<close>

text \<open>
  The \<^verbatim>\<open>useState\<close> slots of lines 65-73. \<open>project\<close> and \<open>boardId\<close> are written with
  values read from backend responses (\<^verbatim>\<open>Project | null\<close>, \<^verbatim>\<open>string | null\<close>).
\<close>

record page_state =
  project :: jsval
  posts :: "post list"
  loading :: bool
  error :: string
  searchTerm :: string
  statusFilter :: string
  sortBy :: string
  showPostForm :: bool
  boardId :: jsval

definition initialState :: page_state where
  "initialState =
     \<lparr> project = JNull, posts = [], loading = True, error = [], searchTerm = [],
       statusFilter = ''all'', sortBy = ''votes'', showPostForm = False, boardId = JNull \<rparr>"

subsection \<open>\<^verbatim>\<open>String.prototype.toLowerCase\<close>\<close>

text \<open>
  A string of the model is the UTF-8 encoding of the JavaScript string's code points (a
  string with an unpaired surrogate has none and is outside the model). The built-in
  lower-cases a string by the Unicode default case conversion: every code point is
  replaced by its lowercase mapping, \<open>U+0130\<close> by the two code points \<open>U+0069 U+0307\<close>,
  and \<open>U+03A3\<close> (capital sigma) by the final sigma \<open>U+03C2\<close> when a cased letter comes
  before it and none after it, case-ignorable characters skipped, and by \<open>U+03C3\<close>
  otherwise. The tables are those of the Unicode 14.0 character database.
\<close>

text \<open>
  Simple lowercase mappings, as runs \<open>(first, last, step, image of first)\<close>: the code
  points \<open>first, first + step, ..., last\<close> map to the image of the first plus their
  distance from it. The run of the ASCII letters is \<open>(65, 90, 1, 97)\<close>.
\<close>

definition lowerRangesBeyondAscii :: "(nat \<times> nat \<times> nat \<times> nat) list" where
  "lowerRangesBeyondAscii =
     [(192, 214, 1, 224), (216, 222, 1, 248), (256, 302, 2, 257), (306, 310, 2, 307),
      (313, 327, 2, 314), (330, 374, 2, 331), (376, 376, 1, 255), (377, 381, 2, 378),
      (385, 385, 1, 595), (386, 388, 2, 387), (390, 390, 1, 596), (391, 391, 1, 392),
      (393, 394, 1, 598), (395, 395, 1, 396), (398, 398, 1, 477), (399, 399, 1, 601),
      (400, 400, 1, 603), (401, 401, 1, 402), (403, 403, 1, 608), (404, 404, 1, 611),
      (406, 406, 1, 617), (407, 407, 1, 616), (408, 408, 1, 409), (412, 412, 1, 623),
      (413, 413, 1, 626), (415, 415, 1, 629), (416, 420, 2, 417), (422, 422, 1, 640),
      (423, 423, 1, 424), (425, 425, 1, 643), (428, 428, 1, 429), (430, 430, 1, 648),
      (431, 431, 1, 432), (433, 434, 1, 650), (435, 437, 2, 436), (439, 439, 1, 658),
      (440, 440, 1, 441), (444, 444, 1, 445), (452, 452, 1, 454), (453, 453, 1, 454),
      (455, 455, 1, 457), (456, 456, 1, 457), (458, 458, 1, 460), (459, 475, 2, 460),
      (478, 494, 2, 479), (497, 497, 1, 499), (498, 500, 2, 499), (502, 502, 1, 405),
      (503, 503, 1, 447), (504, 542, 2, 505), (544, 544, 1, 414), (546, 562, 2, 547),
      (570, 570, 1, 11365), (571, 571, 1, 572), (573, 573, 1, 410), (574, 574, 1, 11366),
      (577, 577, 1, 578), (579, 579, 1, 384), (580, 580, 1, 649), (581, 581, 1, 652),
      (582, 590, 2, 583), (880, 882, 2, 881), (886, 886, 1, 887), (895, 895, 1, 1011),
      (902, 902, 1, 940), (904, 906, 1, 941), (908, 908, 1, 972), (910, 911, 1, 973),
      (913, 929, 1, 945), (931, 939, 1, 963), (975, 975, 1, 983), (984, 1006, 2, 985),
      (1012, 1012, 1, 952), (1015, 1015, 1, 1016), (1017, 1017, 1, 1010), (1018, 1018, 1, 1019),
      (1021, 1023, 1, 891), (1024, 1039, 1, 1104), (1040, 1071, 1, 1072), (1120, 1152, 2, 1121),
      (1162, 1214, 2, 1163), (1216, 1216, 1, 1231), (1217, 1229, 2, 1218), (1232, 1326, 2, 1233),
      (1329, 1366, 1, 1377), (4256, 4293, 1, 11520), (4295, 4295, 1, 11559), (4301, 4301, 1, 11565),
      (5024, 5103, 1, 43888), (5104, 5109, 1, 5112), (7312, 7354, 1, 4304), (7357, 7359, 1, 4349),
      (7680, 7828, 2, 7681), (7838, 7838, 1, 223), (7840, 7934, 2, 7841), (7944, 7951, 1, 7936),
      (7960, 7965, 1, 7952), (7976, 7983, 1, 7968), (7992, 7999, 1, 7984), (8008, 8013, 1, 8000),
      (8025, 8031, 2, 8017), (8040, 8047, 1, 8032), (8072, 8079, 1, 8064), (8088, 8095, 1, 8080),
      (8104, 8111, 1, 8096), (8120, 8121, 1, 8112), (8122, 8123, 1, 8048), (8124, 8124, 1, 8115),
      (8136, 8139, 1, 8050), (8140, 8140, 1, 8131), (8152, 8153, 1, 8144), (8154, 8155, 1, 8054),
      (8168, 8169, 1, 8160), (8170, 8171, 1, 8058), (8172, 8172, 1, 8165), (8184, 8185, 1, 8056),
      (8186, 8187, 1, 8060), (8188, 8188, 1, 8179), (8486, 8486, 1, 969), (8490, 8490, 1, 107),
      (8491, 8491, 1, 229), (8498, 8498, 1, 8526), (8544, 8559, 1, 8560), (8579, 8579, 1, 8580),
      (9398, 9423, 1, 9424), (11264, 11311, 1, 11312), (11360, 11360, 1, 11361), (11362, 11362, 1, 619),
      (11363, 11363, 1, 7549), (11364, 11364, 1, 637), (11367, 11371, 2, 11368), (11373, 11373, 1, 593),
      (11374, 11374, 1, 625), (11375, 11375, 1, 592), (11376, 11376, 1, 594), (11378, 11378, 1, 11379),
      (11381, 11381, 1, 11382), (11390, 11391, 1, 575), (11392, 11490, 2, 11393), (11499, 11501, 2, 11500),
      (11506, 11506, 1, 11507), (42560, 42604, 2, 42561), (42624, 42650, 2, 42625), (42786, 42798, 2, 42787),
      (42802, 42862, 2, 42803), (42873, 42875, 2, 42874), (42877, 42877, 1, 7545), (42878, 42886, 2, 42879),
      (42891, 42891, 1, 42892), (42893, 42893, 1, 613), (42896, 42898, 2, 42897), (42902, 42920, 2, 42903),
      (42922, 42922, 1, 614), (42923, 42923, 1, 604), (42924, 42924, 1, 609), (42925, 42925, 1, 620),
      (42926, 42926, 1, 618), (42928, 42928, 1, 670), (42929, 42929, 1, 647), (42930, 42930, 1, 669),
      (42931, 42931, 1, 43859), (42932, 42946, 2, 42933), (42948, 42948, 1, 42900), (42949, 42949, 1, 642),
      (42950, 42950, 1, 7566), (42951, 42953, 2, 42952), (42960, 42960, 1, 42961), (42966, 42968, 2, 42967),
      (42997, 42997, 1, 42998), (65313, 65338, 1, 65345), (66560, 66599, 1, 66600), (66736, 66771, 1, 66776),
      (66928, 66964, 2, 66967), (66929, 66938, 1, 66968), (66941, 66954, 1, 66980), (66957, 66962, 1, 66996),
      (66965, 66965, 1, 67004), (68736, 68786, 1, 68800), (71840, 71871, 1, 71872), (93760, 93791, 1, 93792),
      (125184, 125217, 1, 125218)]"

definition lowerRanges :: "(nat \<times> nat \<times> nat \<times> nat) list" where
  "lowerRanges = (65, 90, 1, 97) # lowerRangesBeyondAscii"

fun range_lookup :: "(nat \<times> nat \<times> nat \<times> nat) list \<Rightarrow> nat \<Rightarrow> nat" where
  "range_lookup [] c = c"
| "range_lookup ((lo, hi, step, target) # rs) c =
     (if lo \<le> c \<and> c \<le> hi \<and> (c - lo) mod step = 0 then target + (c - lo)
      else range_lookup rs c)"

text \<open>The code points with the property \<open>Case_Ignorable\<close>, as intervals.\<close>

definition caseIgnorableRanges :: "(nat \<times> nat) list" where
  "caseIgnorableRanges =
     [(39, 39), (46, 46), (58, 58), (94, 94), (96, 96), (168, 168), (173, 173),
      (175, 175), (180, 180), (183, 184), (688, 879), (884, 885), (890, 890), (900, 901),
      (903, 903), (1155, 1161), (1369, 1369), (1375, 1375), (1425, 1469), (1471, 1471), (1473, 1474),
      (1476, 1477), (1479, 1479), (1524, 1524), (1536, 1541), (1552, 1562), (1564, 1564), (1600, 1600),
      (1611, 1631), (1648, 1648), (1750, 1757), (1759, 1768), (1770, 1773), (1807, 1807), (1809, 1809),
      (1840, 1866), (1958, 1968), (2027, 2037), (2042, 2042), (2045, 2045), (2070, 2093), (2137, 2139),
      (2184, 2184), (2192, 2193), (2200, 2207), (2249, 2306), (2362, 2362), (2364, 2364), (2369, 2376),
      (2381, 2381), (2385, 2391), (2402, 2403), (2417, 2417), (2433, 2433), (2492, 2492), (2497, 2500),
      (2509, 2509), (2530, 2531), (2558, 2558), (2561, 2562), (2620, 2620), (2625, 2626), (2631, 2632),
      (2635, 2637), (2641, 2641), (2672, 2673), (2677, 2677), (2689, 2690), (2748, 2748), (2753, 2757),
      (2759, 2760), (2765, 2765), (2786, 2787), (2810, 2815), (2817, 2817), (2876, 2876), (2879, 2879),
      (2881, 2884), (2893, 2893), (2901, 2902), (2914, 2915), (2946, 2946), (3008, 3008), (3021, 3021),
      (3072, 3072), (3076, 3076), (3132, 3132), (3134, 3136), (3142, 3144), (3146, 3149), (3157, 3158),
      (3170, 3171), (3201, 3201), (3260, 3260), (3263, 3263), (3270, 3270), (3276, 3277), (3298, 3299),
      (3328, 3329), (3387, 3388), (3393, 3396), (3405, 3405), (3426, 3427), (3457, 3457), (3530, 3530),
      (3538, 3540), (3542, 3542), (3633, 3633), (3636, 3642), (3654, 3662), (3761, 3761), (3764, 3772),
      (3782, 3782), (3784, 3789), (3864, 3865), (3893, 3893), (3895, 3895), (3897, 3897), (3953, 3966),
      (3968, 3972), (3974, 3975), (3981, 3991), (3993, 4028), (4038, 4038), (4141, 4144), (4146, 4151),
      (4153, 4154), (4157, 4158), (4184, 4185), (4190, 4192), (4209, 4212), (4226, 4226), (4229, 4230),
      (4237, 4237), (4253, 4253), (4348, 4348), (4957, 4959), (5906, 5908), (5938, 5939), (5970, 5971),
      (6002, 6003), (6068, 6069), (6071, 6077), (6086, 6086), (6089, 6099), (6103, 6103), (6109, 6109),
      (6155, 6159), (6211, 6211), (6277, 6278), (6313, 6313), (6432, 6434), (6439, 6440), (6450, 6450),
      (6457, 6459), (6679, 6680), (6683, 6683), (6742, 6742), (6744, 6750), (6752, 6752), (6754, 6754),
      (6757, 6764), (6771, 6780), (6783, 6783), (6823, 6823), (6832, 6862), (6912, 6915), (6964, 6964),
      (6966, 6970), (6972, 6972), (6978, 6978), (7019, 7027), (7040, 7041), (7074, 7077), (7080, 7081),
      (7083, 7085), (7142, 7142), (7144, 7145), (7149, 7149), (7151, 7153), (7212, 7219), (7222, 7223),
      (7288, 7293), (7376, 7378), (7380, 7392), (7394, 7400), (7405, 7405), (7412, 7412), (7416, 7417),
      (7468, 7530), (7544, 7544), (7579, 7679), (8125, 8125), (8127, 8129), (8141, 8143), (8157, 8159),
      (8173, 8175), (8189, 8190), (8203, 8207), (8216, 8217), (8228, 8228), (8231, 8231), (8234, 8238),
      (8288, 8292), (8294, 8303), (8305, 8305), (8319, 8319), (8336, 8348), (8400, 8432), (11388, 11389),
      (11503, 11505), (11631, 11631), (11647, 11647), (11744, 11775), (11823, 11823), (12293, 12293), (12330, 12333),
      (12337, 12341), (12347, 12347), (12441, 12446), (12540, 12542), (40981, 40981), (42232, 42237), (42508, 42508),
      (42607, 42610), (42612, 42621), (42623, 42623), (42652, 42655), (42736, 42737), (42752, 42785), (42864, 42864),
      (42888, 42890), (42994, 42996), (43000, 43001), (43010, 43010), (43014, 43014), (43019, 43019), (43045, 43046),
      (43052, 43052), (43204, 43205), (43232, 43249), (43263, 43263), (43302, 43309), (43335, 43345), (43392, 43394),
      (43443, 43443), (43446, 43449), (43452, 43453), (43471, 43471), (43493, 43494), (43561, 43566), (43569, 43570),
      (43573, 43574), (43587, 43587), (43596, 43596), (43632, 43632), (43644, 43644), (43696, 43696), (43698, 43700),
      (43703, 43704), (43710, 43711), (43713, 43713), (43741, 43741), (43756, 43757), (43763, 43764), (43766, 43766),
      (43867, 43871), (43881, 43883), (44005, 44005), (44008, 44008), (44013, 44013), (64286, 64286), (64434, 64450),
      (65024, 65039), (65043, 65043), (65056, 65071), (65106, 65106), (65109, 65109), (65279, 65279), (65287, 65287),
      (65294, 65294), (65306, 65306), (65342, 65342), (65344, 65344), (65392, 65392), (65438, 65439), (65507, 65507),
      (65529, 65531), (66045, 66045), (66272, 66272), (66422, 66426), (67456, 67461), (67463, 67504), (67506, 67514),
      (68097, 68099), (68101, 68102), (68108, 68111), (68152, 68154), (68159, 68159), (68325, 68326), (68900, 68903),
      (69291, 69292), (69446, 69456), (69506, 69509), (69633, 69633), (69688, 69702), (69744, 69744), (69747, 69748),
      (69759, 69761), (69811, 69814), (69817, 69818), (69821, 69821), (69826, 69826), (69837, 69837), (69888, 69890),
      (69927, 69931), (69933, 69940), (70003, 70003), (70016, 70017), (70070, 70078), (70089, 70092), (70095, 70095),
      (70191, 70193), (70196, 70196), (70198, 70199), (70206, 70206), (70367, 70367), (70371, 70378), (70400, 70401),
      (70459, 70460), (70464, 70464), (70502, 70508), (70512, 70516), (70712, 70719), (70722, 70724), (70726, 70726),
      (70750, 70750), (70835, 70840), (70842, 70842), (70847, 70848), (70850, 70851), (71090, 71093), (71100, 71101),
      (71103, 71104), (71132, 71133), (71219, 71226), (71229, 71229), (71231, 71232), (71339, 71339), (71341, 71341),
      (71344, 71349), (71351, 71351), (71453, 71455), (71458, 71461), (71463, 71467), (71727, 71735), (71737, 71738),
      (71995, 71996), (71998, 71998), (72003, 72003), (72148, 72151), (72154, 72155), (72160, 72160), (72193, 72202),
      (72243, 72248), (72251, 72254), (72263, 72263), (72273, 72278), (72281, 72283), (72330, 72342), (72344, 72345),
      (72752, 72758), (72760, 72765), (72767, 72767), (72850, 72871), (72874, 72880), (72882, 72883), (72885, 72886),
      (73009, 73014), (73018, 73018), (73020, 73021), (73023, 73029), (73031, 73031), (73104, 73105), (73109, 73109),
      (73111, 73111), (73459, 73460), (78896, 78904), (92912, 92916), (92976, 92982), (92992, 92995), (94031, 94031),
      (94095, 94111), (94176, 94177), (94179, 94180), (110576, 110579), (110581, 110587), (110589, 110590), (113821, 113822),
      (113824, 113827), (118528, 118573), (118576, 118598), (119143, 119145), (119155, 119170), (119173, 119179), (119210, 119213),
      (119362, 119364), (121344, 121398), (121403, 121452), (121461, 121461), (121476, 121476), (121499, 121503), (121505, 121519),
      (122880, 122886), (122888, 122904), (122907, 122913), (122915, 122916), (122918, 122922), (123184, 123197), (123566, 123566),
      (123628, 123631), (125136, 125142), (125252, 125259), (127995, 127999), (917505, 917505), (917536, 917631), (917760, 917999)]"

text \<open>
  The code points with the property \<open>Cased\<close> that are not case-ignorable (the test for a
  cased letter is only made of a character that is not case-ignorable).
\<close>

definition casedRanges :: "(nat \<times> nat) list" where
  "casedRanges =
     [(65, 90), (97, 122), (170, 170), (181, 181), (186, 186), (192, 214), (216, 246),
      (248, 442), (444, 447), (452, 659), (661, 687), (880, 883), (886, 887), (891, 893),
      (895, 895), (902, 902), (904, 906), (908, 908), (910, 929), (931, 1013), (1015, 1153),
      (1162, 1327), (1329, 1366), (1376, 1416), (4256, 4293), (4295, 4295), (4301, 4301), (4304, 4346),
      (4349, 4351), (5024, 5109), (5112, 5117), (7296, 7304), (7312, 7354), (7357, 7359), (7424, 7467),
      (7531, 7543), (7545, 7578), (7680, 7957), (7960, 7965), (7968, 8005), (8008, 8013), (8016, 8023),
      (8025, 8025), (8027, 8027), (8029, 8029), (8031, 8061), (8064, 8116), (8118, 8124), (8126, 8126),
      (8130, 8132), (8134, 8140), (8144, 8147), (8150, 8155), (8160, 8172), (8178, 8180), (8182, 8188),
      (8450, 8450), (8455, 8455), (8458, 8467), (8469, 8469), (8473, 8477), (8484, 8484), (8486, 8486),
      (8488, 8488), (8490, 8493), (8495, 8500), (8505, 8505), (8508, 8511), (8517, 8521), (8526, 8526),
      (8544, 8575), (8579, 8580), (9398, 9449), (11264, 11387), (11390, 11492), (11499, 11502), (11506, 11507),
      (11520, 11557), (11559, 11559), (11565, 11565), (42560, 42605), (42624, 42651), (42786, 42863), (42865, 42887),
      (42891, 42894), (42896, 42954), (42960, 42961), (42963, 42963), (42965, 42969), (42997, 42998), (43002, 43002),
      (43824, 43866), (43872, 43880), (43888, 43967), (64256, 64262), (64275, 64279), (65313, 65338), (65345, 65370),
      (66560, 66639), (66736, 66771), (66776, 66811), (66928, 66938), (66940, 66954), (66956, 66962), (66964, 66965),
      (66967, 66977), (66979, 66993), (66995, 67001), (67003, 67004), (68736, 68786), (68800, 68850), (71840, 71903),
      (93760, 93823), (119808, 119892), (119894, 119964), (119966, 119967), (119970, 119970), (119973, 119974), (119977, 119980),
      (119982, 119993), (119995, 119995), (119997, 120003), (120005, 120069), (120071, 120074), (120077, 120084), (120086, 120092),
      (120094, 120121), (120123, 120126), (120128, 120132), (120134, 120134), (120138, 120144), (120146, 120485), (120488, 120512),
      (120514, 120538), (120540, 120570), (120572, 120596), (120598, 120628), (120630, 120654), (120656, 120686), (120688, 120712),
      (120714, 120744), (120746, 120770), (120772, 120779), (122624, 122633), (122635, 122654), (125184, 125251), (127280, 127305),
      (127312, 127337), (127344, 127369)]"

fun in_ranges :: "(nat \<times> nat) list \<Rightarrow> nat \<Rightarrow> bool" where
  "in_ranges [] c = False"
| "in_ranges ((lo, hi) # rs) c = ((lo \<le> c \<and> c \<le> hi) \<or> in_ranges rs c)"

definition caseIgnorable :: "nat \<Rightarrow> bool" where
  "caseIgnorable c = in_ranges caseIgnorableRanges c"

definition casedLetter :: "nat \<Rightarrow> bool" where
  "casedLetter c = in_ranges casedRanges c"

text \<open>Skipping case-ignorable characters, the next character of \<open>cs\<close> is a cased letter.\<close>

definition cased_follows :: "nat list \<Rightarrow> bool" where
  "cased_follows cs =
     (case dropWhile caseIgnorable cs of [] \<Rightarrow> False | c # _ \<Rightarrow> casedLetter c)"

text \<open>The condition \<open>Final_Sigma\<close>; \<open>left\<close> is the text before the sigma, nearest
  character first, \<open>right\<close> the text after it.\<close>

definition final_sigma :: "nat list \<Rightarrow> nat list \<Rightarrow> bool" where
  "final_sigma left right = (cased_follows left \<and> \<not> cased_follows right)"

definition lowerCodePoint :: "nat \<Rightarrow> nat list" where
  "lowerCodePoint c = (if c = 304 then [105, 775] else [range_lookup lowerRanges c])"

fun lowerFrom :: "nat list \<Rightarrow> nat list \<Rightarrow> nat list" where
  "lowerFrom left [] = []"
| "lowerFrom left (c # rest) =
     (if c = 931 then [if final_sigma left rest then 962 else 963] else lowerCodePoint c)
     @ lowerFrom (c # left) rest"

text \<open>
  UTF-8. A byte that does not begin a well-formed sequence stands for no character: it
  is decoded to a value beyond the code points, \<open>1114112\<close> plus the byte, which no case
  mapping touches and which is encoded back to the byte.
\<close>

definition cont :: "nat \<Rightarrow> bool" where
  "cont b = (128 \<le> b \<and> b < 192)"

definition multibyte :: "nat \<Rightarrow> nat list \<Rightarrow> (nat \<times> nat) option" where
  "multibyte b bs =
     (if 194 \<le> b \<and> b < 224 then
        (case bs of
           b1 # _ \<Rightarrow> if cont b1 then Some ((b - 192) * 64 + (b1 - 128), 1) else None
         | _ \<Rightarrow> None)
      else if 224 \<le> b \<and> b < 240 then
        (case bs of
           b1 # b2 # _ \<Rightarrow>
             let cp = (b - 224) * 4096 + (b1 - 128) * 64 + (b2 - 128)
             in if cont b1 \<and> cont b2 \<and> 2048 \<le> cp \<and> \<not> (55296 \<le> cp \<and> cp < 57344)
                then Some (cp, 2) else None
         | _ \<Rightarrow> None)
      else if 240 \<le> b \<and> b < 245 then
        (case bs of
           b1 # b2 # b3 # _ \<Rightarrow>
             let cp = (b - 240) * 262144 + (b1 - 128) * 4096 + (b2 - 128) * 64 + (b3 - 128)
             in if cont b1 \<and> cont b2 \<and> cont b3 \<and> 65536 \<le> cp \<and> cp < 1114112
                then Some (cp, 3) else None
         | _ \<Rightarrow> None)
      else None)"

fun utf8_decode :: "nat list \<Rightarrow> nat list" where
  "utf8_decode [] = []"
| "utf8_decode (b # bs) =
     (if b < 128 then b # utf8_decode bs
      else (case multibyte b bs of
              Some (cp, n) \<Rightarrow> cp # utf8_decode (drop n bs)
            | None \<Rightarrow> (1114112 + b) # utf8_decode bs))"

fun utf8_encode :: "nat list \<Rightarrow> nat list" where
  "utf8_encode [] = []"
| "utf8_encode (c # cs) =
     (if c < 128 then [c]
      else if c < 2048 then [192 + c div 64, 128 + c mod 64]
      else if c < 65536 then [224 + c div 4096, 128 + (c div 64) mod 64, 128 + c mod 64]
      else if c < 1114112 then
        [240 + c div 262144, 128 + (c div 4096) mod 64, 128 + (c div 64) mod 64,
         128 + c mod 64]
      else [c - 1114112])
     @ utf8_encode cs"

definition toLowerCase :: "string \<Rightarrow> string" where
  "toLowerCase s = map char_of (utf8_encode (lowerFrom [] (utf8_decode (map of_char s))))"

subsection \<open>The client-side search filter\<close>

text \<open>
  \<^verbatim>\<open>t.includes(s)\<close>: \<open>s\<close> occurs in \<open>t\<close> as a contiguous run. In well-formed UTF-8 no
  character's bytes begin inside another's, so a run of bytes is a run of characters.
\<close>

definition js_includes :: "string \<Rightarrow> string \<Rightarrow> bool" where
  "js_includes t s = sublist s t"

text \<open>
  The predicate passed to \<^verbatim>\<open>posts.filter\<close> (lines 185-188), with its value before the
  filter converts it to a boolean. \<^verbatim>\<open>post.title.toLowerCase()\<close> throws unless the title
  is a string; the right operand of \<^verbatim>\<open>||\<close> is evaluated only when the left one is false,
  is undefined when the description is null or undefined, and throws when the
  description is any other value that is not a string.
\<close>

definition matchesSearch :: "string \<Rightarrow> post \<Rightarrow> js_exn + jsval" where
  "matchesSearch term p =
     (case title p of
        JStr t \<Rightarrow>
          if js_includes (toLowerCase t) (toLowerCase term) then Inr (JBool True)
          else (case description p of
                  JUndefined \<Rightarrow> Inr JUndefined
                | JNull \<Rightarrow> Inr JUndefined
                | JStr d \<Rightarrow> Inr (JBool (js_includes (toLowerCase d) (toLowerCase term)))
                | _ \<Rightarrow> Inl TypeError)
      | _ \<Rightarrow> Inl TypeError)"

text \<open>\<^verbatim>\<open>Array.prototype.filter\<close> with a callback that may throw; it builds a new array.\<close>

fun filter_posts :: "(post \<Rightarrow> js_exn + jsval) \<Rightarrow> post list \<Rightarrow> js_exn + post list" where
  "filter_posts f [] = Inr []"
| "filter_posts f (p # ps) =
     (case f p of
        Inl e \<Rightarrow> Inl e
      | Inr v \<Rightarrow>
          (case filter_posts f ps of
             Inl e \<Rightarrow> Inl e
           | Inr qs \<Rightarrow> Inr (if truthy v then p # qs else qs)))"

definition filteredPosts :: "page_state \<Rightarrow> js_exn + post list" where
  "filteredPosts s = filter_posts (matchesSearch (searchTerm s)) (posts s)"

text \<open>
  What the specification asks of the filter, in its own words: \<open>s\<close> is a
  case-insensitive substring of \<open>t\<close> when some contiguous run of \<open>t\<close> equals \<open>s\<close> up to
  the case of its letters. The letters are given here without reference to
  \<open>toLowerCase\<close>: two characters are the same letter when they are equal or are a capital
  \<open>A\<close>-\<open>Z\<close> and its small letter, 32 places on. Characters beyond ASCII are the same
  letter only when equal, so beyond ASCII the relation is narrower than the words: what
  it relates is contained case-insensitively, and it is compared with the filter on
  ASCII text only.
\<close>

definition upperLetter :: "char \<Rightarrow> bool" where
  "upperLetter c = (65 \<le> (of_char c :: nat) \<and> (of_char c :: nat) \<le> 90)"

definition same_letter :: "char \<Rightarrow> char \<Rightarrow> bool" where
  "same_letter c d =
     (c = d \<or> (upperLetter c \<and> (of_char d :: nat) = of_char c + 32)
            \<or> (upperLetter d \<and> (of_char c :: nat) = of_char d + 32))"

definition ci_substring :: "string \<Rightarrow> string \<Rightarrow> bool" where
  "ci_substring s t = (\<exists>ps m ss. t = ps @ m @ ss \<and> list_all2 same_letter m s)"

text \<open>A post as \<^verbatim>\<open>interface Post\<close> types the two searched fields: a string title, a
  description that is a string or absent (undefined, or the null of an empty column).\<close>

definition searchable :: "post \<Rightarrow> bool" where
  "searchable p =
     ((case title p of JStr t \<Rightarrow> True | _ \<Rightarrow> False) \<and>
      (case description p of
         JStr d \<Rightarrow> True | JUndefined \<Rightarrow> True | JNull \<Rightarrow> True | _ \<Rightarrow> False))"

text \<open>The specification's matching condition on such a post.\<close>

definition spec_matches :: "string \<Rightarrow> post \<Rightarrow> bool" where
  "spec_matches term p =
     ((case title p of JStr t \<Rightarrow> ci_substring term t | _ \<Rightarrow> False) \<or>
      (case description p of JStr d \<Rightarrow> ci_substring term d | _ \<Rightarrow> False))"

text \<open>
  The matching condition the page computes on such a post: the lower-cased title or
  the lower-cased description contains the lower-cased search string.
\<close>

definition lowerMatch :: "string \<Rightarrow> post \<Rightarrow> bool" where
  "lowerMatch term p =
     ((case title p of
         JStr t \<Rightarrow> js_includes (toLowerCase t) (toLowerCase term) | _ \<Rightarrow> False) \<or>
      (case description p of
         JStr d \<Rightarrow> js_includes (toLowerCase d) (toLowerCase term) | _ \<Rightarrow> False))"

text \<open>ASCII text; the fold of the letters \<open>A\<close>-\<open>Z\<close>, which is what \<open>toLowerCase\<close> does to
  it; a post whose title and description are ASCII where they are strings.\<close>

definition ascii :: "string \<Rightarrow> bool" where
  "ascii s = list_all (\<lambda>c. (of_char c :: nat) < 128) s"

definition toLowerAscii :: "nat \<Rightarrow> nat" where
  "toLowerAscii c = (if 65 \<le> c \<and> c \<le> 90 then c + 32 else c)"

definition asciiPost :: "post \<Rightarrow> bool" where
  "asciiPost p =
     ((case title p of JStr t \<Rightarrow> ascii t | _ \<Rightarrow> True) \<and>
      (case description p of JStr d \<Rightarrow> ascii d | _ \<Rightarrow> True))"

subsection \<open>The vote-change callback\<close>

text \<open>
  \<^verbatim>\<open>onVoteChange\<close> (lines 366-373), the handler built for the rendered \<open>post\<close>: the
  functional update passed to \<^verbatim>\<open>setPosts\<close>, applied to the state it finds.
\<close>

definition onVoteChange :: "post \<Rightarrow> int \<Rightarrow> bool \<Rightarrow> page_state \<Rightarrow> page_state" where
  "onVoteChange post newCount userVoted s =
     s\<lparr>posts :=
         map (\<lambda>p. if strict_eq (post_id p) (post_id post)
                   then p\<lparr>vote_count := JNum newCount, user_voted := userVoted\<rparr>
                   else p)
             (posts s)\<rparr>"

subsection \<open>The submission form's mount condition\<close>

text \<open>\<^verbatim>\<open>showPostForm && project && boardId\<close> (line 450).\<close>

definition formMounted :: "page_state \<Rightarrow> bool" where
  "formMounted s = (showPostForm s \<and> truthy (project s) \<and> truthy (boardId s))"

subsection \<open>Queries and the backend client\<close>

text \<open>
  The database client is an external collaborator. A query is the record of the builder
  calls made on it (\<^verbatim>\<open>.from\<close>, \<^verbatim>\<open>.select\<close>, \<^verbatim>\<open>.eq\<close>, \<^verbatim>\<open>.is\<close>, \<^verbatim>\<open>.order\<close>, \<^verbatim>\<open>.single\<close>);
  awaiting a query either throws (the promise rejects) or resolves to a response
  \<^verbatim>\<open>{ data, error }\<close>.
\<close>

datatype predicate = Eq string jsval | Is string jsval

record query =
  q_from :: string
  q_select :: string
  q_filters :: "predicate list"
  q_order :: "(string \<times> bool) list"
  q_single :: bool

definition from_table :: "string \<Rightarrow> query" where
  "from_table t = \<lparr> q_from = t, q_select = [], q_filters = [], q_order = [], q_single = False \<rparr>"

definition select_cols :: "string \<Rightarrow> query \<Rightarrow> query" where
  "select_cols cols q = q\<lparr>q_select := cols\<rparr>"

definition eq_pred :: "string \<Rightarrow> jsval \<Rightarrow> query \<Rightarrow> query" where
  "eq_pred col v q = q\<lparr>q_filters := q_filters q @ [Eq col v]\<rparr>"

definition is_pred :: "string \<Rightarrow> jsval \<Rightarrow> query \<Rightarrow> query" where
  "is_pred col v q = q\<lparr>q_filters := q_filters q @ [Is col v]\<rparr>"

text \<open>\<^verbatim>\<open>.order(col, { ascending })\<close>.\<close>

definition order_by :: "string \<Rightarrow> bool \<Rightarrow> query \<Rightarrow> query" where
  "order_by col ascending q = q\<lparr>q_order := q_order q @ [(col, ascending)]\<rparr>"

definition single_row :: "query \<Rightarrow> query" where
  "single_row q = q\<lparr>q_single := True\<rparr>"

fun predicate_column :: "predicate \<Rightarrow> string" where
  "predicate_column (Eq col v) = col"
| "predicate_column (Is col v) = col"

record response =
  r_data :: jsval
  r_error :: jsval

type_synonym client = "query \<Rightarrow> js_exn + response"

text \<open>
  What \<^verbatim>\<open>.single()\<close> promises of the response it resolves to: a row and no error, or
  no row and an error; a lookup that matches no row is reported as an error.
\<close>

definition single_response :: "response \<Rightarrow> bool" where
  "single_response r = (nullish (r_data r) \<longleftrightarrow> truthy (r_error r))"

datatype effect =
    Issued query
  | ToastError string
  | RouterPush string
  | ConsoleError string

subsection \<open>The load sequence\<close>

text \<open>The project query of lines 95-99 and the board query of lines 110-114.\<close>

definition projectQuery :: "string \<Rightarrow> query" where
  "projectQuery slug =
     single_row (eq_pred ''slug'' (JStr slug) (select_cols ''*'' (from_table ''projects'')))"

definition boardQuery :: "jsval \<Rightarrow> query" where
  "boardQuery pid =
     single_row (eq_pred ''project_id'' pid (select_cols ''id'' (from_table ''boards'')))"

text \<open>
  The posts query of lines 124-146, for the board id read from the board row. The
  select list is written without the template literal's line breaks and indentation.
\<close>

definition postsQuery :: "jsval \<Rightarrow> string \<Rightarrow> string \<Rightarrow> query" where
  "postsQuery bid statusFilter' sortBy' =
     (let q0 = is_pred ''duplicate_of'' JNull
                 (eq_pred ''board_id'' bid
                   (select_cols ''*,vote_count:votes(count),comment_count:comments(count)''
                     (from_table ''posts'')));
          q1 = (if statusFilter' \<noteq> ''all'' then eq_pred ''status'' (JStr statusFilter') q0 else q0)
      in if sortBy' = ''votes'' then order_by ''vote_count'' False q1
         else if sortBy' = ''newest'' then order_by ''created_at'' False q1
         else if sortBy' = ''oldest'' then order_by ''created_at'' True q1
         else q1)"

text \<open>
  The \<^verbatim>\<open>try\<close> block of \<^verbatim>\<open>loadProjectAndPosts\<close> (lines 92-169). The result is how the
  block ended (\<open>None\<close>: it ran to its end or returned; \<open>Some e\<close>: it threw \<open>e\<close>), the
  state after the setters it called, and the effects in order. \<open>statusFilter\<close> and
  \<open>sortBy\<close> are the values the callback closed over.
\<close>

definition tryBlock :: "client \<Rightarrow> string \<Rightarrow> page_state \<Rightarrow> js_exn option \<times> page_state \<times> effect list" where
  "tryBlock supabase slug s0 =
     (let s1 = s0\<lparr>loading := True\<rparr>;
          q1 = projectQuery slug;
          es1 = [Issued q1]
      in case supabase q1 of
           Inl e \<Rightarrow> (Some e, s1, es1)
         | Inr r1 \<Rightarrow>
             if truthy (r_error r1)
             then (None, s1, es1 @ [ToastError ''Project not found'', RouterPush ''/''])
             else
               let s2 = s1\<lparr>project := r_data r1\<rparr>
               in case member (r_data r1) ''id'' of
                    Inl e \<Rightarrow> (Some e, s2, es1)
                  | Inr pid \<Rightarrow>
                      let q2 = boardQuery pid;
                          es2 = es1 @ [Issued q2]
                      in case supabase q2 of
                           Inl e \<Rightarrow> (Some e, s2, es2)
                         | Inr r2 \<Rightarrow>
                             if truthy (r_error r2) \<or> \<not> truthy (r_data r2)
                             then (None, s2, es2 @ [ToastError ''Board not found''])
                             else
                               let bid = get (r_data r2) ''id'';
                                   s3 = s2\<lparr>boardId := bid\<rparr>;
                                   q3 = postsQuery bid (statusFilter s0) (sortBy s0);
                                   es3 = es2 @ [Issued q3]
                               in case supabase q3 of
                                    Inl e \<Rightarrow> (Some e, s3, es3)
                                  | Inr r3 \<Rightarrow>
                                      if truthy (r_error r3)
                                      then (None, s3,
                                            es3 @ [ConsoleError ''Error loading posts:'',
                                                   ToastError ''Error loading posts''])
                                      else (case processedPosts (r_data r3) of
                                              Inl e \<Rightarrow> (Some e, s3, es3)
                                            | Inr ps \<Rightarrow> (None, s3\<lparr>posts := ps\<rparr>, es3)))"

text \<open>
  \<^verbatim>\<open>loadProjectAndPosts\<close> (lines 84-177): the guard on a missing client, the \<^verbatim>\<open>try\<close>
  block, the \<^verbatim>\<open>catch\<close> clause and the \<^verbatim>\<open>finally\<close> clause. \<open>None\<close> is the null client.
\<close>

definition loadProjectAndPosts :: "client option \<Rightarrow> string \<Rightarrow> page_state \<Rightarrow> page_state \<times> effect list" where
  "loadProjectAndPosts supabase slug s =
     (case supabase of
        None \<Rightarrow>
          (s\<lparr>error := ''Database connection not available. Please refresh the page.'',
             loading := False\<rparr>, [])
      | Some c \<Rightarrow>
          (case tryBlock c slug s of
             (None, s', es) \<Rightarrow> (s'\<lparr>loading := False\<rparr>, es)
           | (Some e, s', es) \<Rightarrow>
               (s'\<lparr>loading := False\<rparr>,
                es @ [ConsoleError ''Error:'', ToastError ''Something went wrong''])))"

subsection \<open>Example data\<close>

text \<open>A row of the posts response with three votes and an empty comments aggregate.\<close>

definition exampleRow :: jsval where
  "exampleRow =
     JObj 10 [(''id'', JStr ''p1''), (''title'', JStr ''Dark Mode''),
              (''status'', JStr ''open''),
              (''vote_count'', JArr 11 [JObj 12 [(''count'', JNum 3)]]),
              (''comment_count'', JArr 13 [])]"

text \<open>Two mapped posts (the first is the mapper's result on \<open>exampleRow\<close>) and a state
  showing them.\<close>

definition examplePost1 :: post where
  "examplePost1 =
     \<lparr> post_id = JStr ''p1'', title = JStr ''Dark Mode'', description = JUndefined,
       author_email = JUndefined, status = JStr ''open'', created_at = JUndefined,
       vote_count = JNum 3, comment_count = JNum 0, user_voted = False \<rparr>"

definition examplePost2 :: post where
  "examplePost2 =
     \<lparr> post_id = JStr ''p2'', title = JStr ''Export to CSV'',
       description = JStr ''Spreadsheet download'',
       author_email = JNull, status = JStr ''planned'', created_at = JStr ''2024-05-01'',
       vote_count = JNum 1, comment_count = JNum 2, user_voted = False \<rparr>"

definition exampleState :: page_state where
  "exampleState = initialState\<lparr>posts := [examplePost1, examplePost2], loading := False\<rparr>"

text \<open>
  Example backends: a project row, a board row, a response that carries data, a
  response that carries an error, and a client that answers by table.
\<close>

definition exampleProject :: jsval where
  "exampleProject =
     JObj 1 [(''id'', JStr ''proj1''), (''name'', JStr ''Acme''), (''slug'', JStr ''acme'')]"

definition exampleBoard :: jsval where
  "exampleBoard = JObj 2 [(''id'', JStr ''b1'')]"

definition found :: "jsval \<Rightarrow> js_exn + response" where
  "found d = Inr \<lparr> r_data = d, r_error = JNull \<rparr>"

definition failed :: "js_exn + response" where
  "failed = Inr \<lparr> r_data = JNull, r_error = JObj 3 [(''message'', JStr ''failed'')] \<rparr>"

definition exampleClient ::
    "(js_exn + response) \<Rightarrow> (js_exn + response) \<Rightarrow> (js_exn + response) \<Rightarrow> client" where
  "exampleClient pr br psr q =
     (if q_from q = ''projects'' then pr else if q_from q = ''boards'' then br else psr)"

definition exampleBackend :: client where
  "exampleBackend =
     exampleClient (found exampleProject) (found exampleBoard) (found (JArr 4 [exampleRow]))"

definition postsFailBackend :: client where
  "postsFailBackend = exampleClient (found exampleProject) (found exampleBoard) failed"

text \<open>
  A post whose title is the Greek word of the code points \<open>U+039F U+0394 U+039F U+03A3\<close>
  (omicron, delta, omicron, sigma, all capital; in UTF-8), and a state showing it while
  the search box holds a capital sigma, \<open>U+03A3\<close>.
\<close>

definition odos :: string where
  "odos = [CHR 0xCE, CHR 0x9F, CHR 0xCE, CHR 0x94, CHR 0xCE, CHR 0x9F, CHR 0xCE, CHR 0xA3]"

definition capitalSigma :: string where
  "capitalSigma = [CHR 0xCE, CHR 0xA3]"

definition greekPost :: post where
  "greekPost = examplePost1\<lparr>post_id := JStr ''p3'', title := JStr odos\<rparr>"

definition greekState :: page_state where
  "greekState = initialState\<lparr>posts := [greekPost], loading := False,
                              searchTerm := capitalSigma\<rparr>"

text \<open>
  The state after a first load that succeeds, with the form's button pressed, and a
  backend whose board lookup fails.
\<close>

definition loadedState :: page_state where
  "loadedState =
     (fst (loadProjectAndPosts (Some exampleBackend) ''acme'' initialState))
       \<lparr>showPostForm := True\<rparr>"

definition boardFailBackend :: client where
  "boardFailBackend = exampleClient (found exampleProject) failed failed"

section \<open>Properties\<close>

subsection \<open>The mapper\<close>

lemma processPost_object:
  "processPost (JObj a fs) =
     Inr \<lparr> post_id = get (JObj a fs) ''id'',
           title = get (JObj a fs) ''title'',
           description = get (JObj a fs) ''description'',
           author_email = get (JObj a fs) ''author_email'',
           status = get (JObj a fs) ''status'',
           created_at = get (JObj a fs) ''created_at'',
           vote_count =
             js_or (opt_member (opt_index0 (get (JObj a fs) ''vote_count'')) ''count'') (JNum 0),
           comment_count =
             js_or (opt_member (opt_index0 (get (JObj a fs) ''comment_count'')) ''count'') (JNum 0),
           user_voted = False \<rparr>"
  by (simp add: processPost_def)

text \<open>
  Claim C1. The mapper returns a post for every row object, whatever properties the row
  has or lacks (it has no failing path on an object). The query names the votes
  aggregate \<^verbatim>\<open>vote_count\<close> and the comments aggregate \<^verbatim>\<open>comment_count\<close> in the row. In
  the post, \<open>vote_count\<close> is 0 when the row's votes aggregate is absent, null or an empty
  array, and is the number \<open>n\<close> when the aggregate is an array whose first element is an
  object with \<^verbatim>\<open>count\<close> \<open>n\<close>; the same holds of \<open>comment_count\<close> and the comments
  aggregate; and \<open>id\<close>, \<open>title\<close>, \<open>description\<close>, \<open>author_email\<close>, \<open>status\<close> and
  \<open>created_at\<close> are the row's properties of those names, unchanged (undefined when the
  row lacks them).
\<close>

theorem mapper_counts_and_scalars:
  "\<exists>p. processPost (JObj a fs) = Inr p
     \<and> post_id p = get (JObj a fs) ''id''
     \<and> title p = get (JObj a fs) ''title''
     \<and> description p = get (JObj a fs) ''description''
     \<and> author_email p = get (JObj a fs) ''author_email''
     \<and> status p = get (JObj a fs) ''status''
     \<and> created_at p = get (JObj a fs) ''created_at''
     \<and> (map_of fs ''vote_count'' = None \<or> map_of fs ''vote_count'' = Some JNull
          \<or> map_of fs ''vote_count'' = Some (JArr b [])
          \<longrightarrow> vote_count p = JNum 0)
     \<and> (map_of fs ''vote_count'' = Some (JArr b (JObj c gs # rest))
          \<and> map_of gs ''count'' = Some (JNum n)
          \<longrightarrow> vote_count p = JNum n)
     \<and> (map_of fs ''comment_count'' = None \<or> map_of fs ''comment_count'' = Some JNull
          \<or> map_of fs ''comment_count'' = Some (JArr b' [])
          \<longrightarrow> comment_count p = JNum 0)
     \<and> (map_of fs ''comment_count'' = Some (JArr b' (JObj c' gs' # rest'))
          \<and> map_of gs' ''count'' = Some (JNum n')
          \<longrightarrow> comment_count p = JNum n')"
  by (auto simp: processPost_def js_or_def opt_member_def opt_index0_def)

theorem mapper_counts_and_scalars_witness:
  "map_of [(''id'', JStr ''p1''), (''title'', JStr ''Dark Mode''), (''status'', JStr ''open''),
           (''vote_count'', JArr 11 [JObj 12 [(''count'', JNum 3)]]),
           (''comment_count'', JArr 13 [])] ''vote_count''
     = Some (JArr 11 (JObj 12 [(''count'', JNum 3)] # []))
   \<and> map_of [(''count'', JNum 3)] ''count'' = Some (JNum 3)
   \<and> map_of [(''id'', JStr ''p1''), (''title'', JStr ''Dark Mode''), (''status'', JStr ''open''),
           (''vote_count'', JArr 11 [JObj 12 [(''count'', JNum 3)]]),
           (''comment_count'', JArr 13 [])] ''comment_count''
     = Some (JArr 13 [])
   \<and> (\<exists>p. processPost exampleRow = Inr p
          \<and> post_id p = JStr ''p1'' \<and> title p = JStr ''Dark Mode''
          \<and> description p = JUndefined \<and> author_email p = JUndefined
          \<and> status p = JStr ''open'' \<and> created_at p = JUndefined
          \<and> vote_count p = JNum 3 \<and> comment_count p = JNum 0)"
  using mapper_counts_and_scalars
          [of 10 "[(''id'', JStr ''p1''), (''title'', JStr ''Dark Mode''), (''status'', JStr ''open''),
                   (''vote_count'', JArr 11 [JObj 12 [(''count'', JNum 3)]]),
                   (''comment_count'', JArr 13 [])]"
              11 12 "[(''count'', JNum 3)]" "[]" 3 13 0 "[]" "[]" 0]
  by (simp add: exampleRow_def)

text \<open>
  Claim C9. The mapper returns a post for every row object, and in every post the
  mapper returns, for any row value at all, \<open>user_voted\<close> is false.
\<close>

theorem mapper_user_voted_false:
  "(\<exists>p. processPost (JObj a fs) = Inr p \<and> user_voted p = False)
   \<and> (\<forall>row p. processPost row = Inr p \<longrightarrow> user_voted p = False)"
  by (auto simp: processPost_def split: if_splits)

theorem mapper_user_voted_false_witness:
  "\<exists>p. processPost exampleRow = Inr p \<and> user_voted p = False"
  using mapper_user_voted_false
          [of 10 "[(''id'', JStr ''p1''), (''title'', JStr ''Dark Mode''), (''status'', JStr ''open''),
                   (''vote_count'', JArr 11 [JObj 12 [(''count'', JNum 3)]]),
                   (''comment_count'', JArr 13 [])]"]
  by (simp add: exampleRow_def)

subsection \<open>Lower-casing ASCII text\<close>

text \<open>On ASCII text \<open>toLowerCase\<close> folds the letters \<open>A\<close>-\<open>Z\<close>, character by character.\<close>

lemma range_lookup_below:
  "list_all (\<lambda>(lo, hi, st, t). c < lo) rs \<Longrightarrow> range_lookup rs c = c"
  by (induction rs) auto

lemma lowerRangesBeyondAscii_from_128:
  "list_all (\<lambda>(lo, hi, st, t). 128 \<le> lo) lowerRangesBeyondAscii"
  by (simp add: lowerRangesBeyondAscii_def)

lemma range_lookup_ascii:
  assumes "c < 128"
  shows "range_lookup lowerRanges c = toLowerAscii c"
proof -
  have "list_all (\<lambda>(lo, hi, st, t). c < lo) lowerRangesBeyondAscii"
    using lowerRangesBeyondAscii_from_128 assms
    by (auto simp: list_all_iff)
  then have "range_lookup lowerRangesBeyondAscii c = c"
    by (rule range_lookup_below)
  then show ?thesis
    by (simp add: lowerRanges_def toLowerAscii_def)
qed

lemma lowerCodePoint_ascii: "c < 128 \<Longrightarrow> lowerCodePoint c = [toLowerAscii c]"
  by (simp add: lowerCodePoint_def range_lookup_ascii)

lemma lowerFrom_ascii:
  "\<forall>c \<in> set cs. c < 128 \<Longrightarrow> lowerFrom left cs = map toLowerAscii cs"
  by (induction cs arbitrary: left) (simp_all add: lowerCodePoint_ascii)

lemma utf8_decode_ascii: "\<forall>b \<in> set bs. b < 128 \<Longrightarrow> utf8_decode bs = bs"
  by (induction bs) simp_all

lemma utf8_encode_ascii: "\<forall>c \<in> set cs. c < 128 \<Longrightarrow> utf8_encode cs = cs"
  by (induction cs) simp_all

lemma toLowerAscii_less: "c < 128 \<Longrightarrow> toLowerAscii c < 128"
  by (simp add: toLowerAscii_def)

lemma toLowerCase_ascii:
  assumes "ascii s"
  shows "toLowerCase s = map (\<lambda>c. char_of (toLowerAscii (of_char c))) s"
proof -
  from assms have a: "\<forall>b \<in> set (map of_char s). (b::nat) < 128"
    by (auto simp: ascii_def list_all_iff)
  then have "utf8_decode (map of_char s) = map of_char s"
    by (rule utf8_decode_ascii)
  moreover have "lowerFrom [] (map of_char s) = map toLowerAscii (map of_char s)"
    using a by (rule lowerFrom_ascii)
  moreover have "utf8_encode (map toLowerAscii (map of_char s)) = map toLowerAscii (map of_char s)"
    using a by (intro utf8_encode_ascii) (auto simp: toLowerAscii_less)
  ultimately show ?thesis
    by (simp add: toLowerCase_def)
qed

subsection \<open>The search filter\<close>

lemma fold_eq_same_letter:
  assumes "(of_char c :: nat) < 128" and "(of_char d :: nat) < 128"
  shows "char_of (toLowerAscii (of_char c)) = (char_of (toLowerAscii (of_char d)) :: char)
         \<longleftrightarrow> same_letter c d"
proof -
  have inj: "(char_of (m::nat) :: char) = char_of n \<longleftrightarrow> m = n" if "m < 256" "n < 256" for m n
    using that by (metis mod_less of_char_of)
  have lt: "toLowerAscii (of_char c) < 256" "toLowerAscii (of_char d) < 256"
    using assms by (simp_all add: toLowerAscii_def)
  have cd: "c = d \<longleftrightarrow> (of_char c :: nat) = of_char d"
    by auto
  show ?thesis
    unfolding inj [OF lt] same_letter_def upperLetter_def cd toLowerAscii_def
    by auto
qed

lemma map_eq_iff_list_all2:
  "map f xs = map f ys \<longleftrightarrow> list_all2 (\<lambda>x y. f x = f y) xs ys"
  by (simp add: list.rel_eq [symmetric] list.rel_map)

lemma sublist_map_iff:
  "sublist (map f s) (map f t) \<longleftrightarrow> (\<exists>ps m ss. t = ps @ m @ ss \<and> map f m = map f s)"
proof
  assume "sublist (map f s) (map f t)"
  then obtain ps' ss' where "map f t = ps' @ map f s @ ss'"
    by (auto simp: sublist_def)
  then obtain ps r where t: "t = ps @ r" and r: "map f r = map f s @ ss'"
    by (metis map_eq_append_conv)
  from r obtain m ss where "r = m @ ss" "map f m = map f s"
    by (metis map_eq_append_conv)
  with t show "\<exists>ps m ss. t = ps @ m @ ss \<and> map f m = map f s" by blast
next
  assume "\<exists>ps m ss. t = ps @ m @ ss \<and> map f m = map f s"
  then obtain ps m ss where "t = ps @ m @ ss" "map f m = map f s" by blast
  then have "map f t = map f ps @ map f s @ map f ss" by simp
  then show "sublist (map f s) (map f t)" unfolding sublist_def by blast
qed

text \<open>On ASCII text the source's test, lower-casing both strings, is the specification's
  relation.\<close>

lemma includes_lower_ascii:
  assumes "ascii t" and "ascii s"
  shows "js_includes (toLowerCase t) (toLowerCase s) = ci_substring s t"
proof -
  let ?f = "\<lambda>c. char_of (toLowerAscii (of_char c)) :: char"
  have same: "map ?f m = map ?f s \<longleftrightarrow> list_all2 same_letter m s" if m: "ascii m" for m
  proof -
    have k: "?f x = ?f y \<longleftrightarrow> same_letter x y" if "x \<in> set m" "y \<in> set s" for x y
    proof -
      from that m assms(2) have "(of_char x :: nat) < 128" "(of_char y :: nat) < 128"
        by (auto simp: ascii_def list_all_iff)
      then show ?thesis by (rule fold_eq_same_letter)
    qed
    have "list_all2 (\<lambda>x y. ?f x = ?f y) m s \<longleftrightarrow> list_all2 same_letter m s"
    proof
      assume "list_all2 (\<lambda>x y. ?f x = ?f y) m s"
      then show "list_all2 same_letter m s"
        by (rule list.rel_mono_strong) (use k in blast)
    next
      assume "list_all2 same_letter m s"
      then show "list_all2 (\<lambda>x y. ?f x = ?f y) m s"
        by (rule list.rel_mono_strong) (use k in blast)
    qed
    then show ?thesis by (simp only: map_eq_iff_list_all2)
  qed
  have seg: "ascii m" if "t = ps @ m @ ss" for ps m ss
    using that assms(1) by (simp add: ascii_def)
  have "js_includes (toLowerCase t) (toLowerCase s)
          \<longleftrightarrow> (\<exists>ps m ss. t = ps @ m @ ss \<and> map ?f m = map ?f s)"
    by (simp add: js_includes_def toLowerCase_ascii assms sublist_map_iff)
  also have "\<dots> \<longleftrightarrow> (\<exists>ps m ss. t = ps @ m @ ss \<and> list_all2 same_letter m s)"
    using same seg by blast
  finally show ?thesis by (simp add: ci_substring_def)
qed

lemma toLowerCase_Nil: "toLowerCase [] = []"
  by (simp add: toLowerCase_def)

text \<open>Deciding \<open>js_includes\<close> on the bytes of the strings.\<close>

lemma sublist_bytes:
  "sublist s t \<longleftrightarrow> sublist (map of_char s :: nat list) (map of_char t)"
proof -
  have inj: "map of_char m = (map of_char s :: nat list) \<longleftrightarrow> m = s" for m
    by (simp add: inj_map_eq_map inj_of_char)
  have "sublist (map of_char s :: nat list) (map of_char t)
          \<longleftrightarrow> (\<exists>ps m ss. t = ps @ m @ ss \<and> m = s)"
    by (simp only: sublist_map_iff inj)
  also have "\<dots> \<longleftrightarrow> sublist s t"
    by (auto simp: sublist_def)
  finally show ?thesis by simp
qed

lemma bytes_toLowerCase_ascii:
  assumes "ascii s"
  shows "map of_char (toLowerCase s) = map (\<lambda>c. toLowerAscii (of_char c)) s"
proof -
  have "toLowerAscii (of_char c) mod 256 = toLowerAscii (of_char c)" if "c \<in> set s" for c
    using that assms by (auto simp: ascii_def list_all_iff toLowerAscii_def)
  then show ?thesis
    by (simp add: toLowerCase_ascii assms)
qed

text \<open>
  Lower-casing the Greek title and the capital sigma: the sigma that ends the word
  becomes the final sigma \<open>U+03C2\<close>, the sigma that stands alone becomes \<open>U+03C3\<close>.
\<close>

lemma odos_lower:
  "map of_char (toLowerCase odos) = [206, 191, 206, 180, 206, 191, 207, 130 :: nat]"
proof -
  have b: "map of_char odos = [206, 159, 206, 148, 206, 159, 206, 163 :: nat]"
    by (simp add: odos_def)
  have d: "utf8_decode [206, 159, 206, 148, 206, 159, 206, 163] = [927, 916, 927, 931]"
    by (simp add: multibyte_def cont_def)
  have i: "\<not> caseIgnorable 927" "\<not> caseIgnorable 916" "\<not> caseIgnorable 931"
    by (simp_all add: caseIgnorable_def caseIgnorableRanges_def)
  have c: "casedLetter 927"
    by (simp add: casedLetter_def casedRanges_def)
  have l: "lowerCodePoint 927 = [959]" "lowerCodePoint 916 = [948]"
    by (simp_all add: lowerCodePoint_def lowerRanges_def lowerRangesBeyondAscii_def)
  have f: "lowerFrom [] [927, 916, 927, 931] = [959, 948, 959, 962]"
    by (simp add: l final_sigma_def cased_follows_def i c)
  have e: "utf8_encode [959, 948, 959, 962] = [206, 191, 206, 180, 206, 191, 207, 130]"
    by simp
  show ?thesis
    by (simp only: toLowerCase_def b d f e) simp
qed

lemma capitalSigma_lower: "map of_char (toLowerCase capitalSigma) = [207, 131 :: nat]"
proof -
  have "utf8_decode [206, 163] = [931]"
    by (simp add: multibyte_def cont_def)
  then show ?thesis
    by (simp add: capitalSigma_def toLowerCase_def final_sigma_def cased_follows_def)
qed

text \<open>Beyond ASCII the letters fold too: \<^verbatim>\<open>CAF\<close> and \<open>U+00C9\<close> is found by \<^verbatim>\<open>caf\<close> and \<open>U+00E9\<close>.\<close>

lemma cafe_found:
  "js_includes (toLowerCase [CHR ''C'', CHR ''A'', CHR ''F'', CHR 0xC3, CHR 0x89])
               (toLowerCase [CHR ''c'', CHR ''a'', CHR ''f'', CHR 0xC3, CHR 0xA9])"
proof -
  have d: "utf8_decode [67, 65, 70, 195, 137] = [67, 65, 70, 201]"
          "utf8_decode [99, 97, 102, 195, 169] = [99, 97, 102, 233]"
    by (simp_all add: multibyte_def cont_def)
  have l: "lowerCodePoint 67 = [99]" "lowerCodePoint 65 = [97]" "lowerCodePoint 70 = [102]"
          "lowerCodePoint 201 = [233]" "lowerCodePoint 99 = [99]" "lowerCodePoint 97 = [97]"
          "lowerCodePoint 102 = [102]" "lowerCodePoint 233 = [233]"
    by (simp_all add: lowerCodePoint_def lowerRanges_def lowerRangesBeyondAscii_def)
  have b: "map of_char [CHR ''C'', CHR ''A'', CHR ''F'', CHR 0xC3, CHR 0x89]
             = [67, 65, 70, 195, 137 :: nat]"
          "map of_char [CHR ''c'', CHR ''a'', CHR ''f'', CHR 0xC3, CHR 0xA9]
             = [99, 97, 102, 195, 169 :: nat]"
    by simp_all
  have f: "lowerFrom [] [67, 65, 70, 201] = [99, 97, 102, 233]"
          "lowerFrom [] [99, 97, 102, 233] = [99, 97, 102, 233]"
    by (simp_all add: l)
  have "toLowerCase [CHR ''C'', CHR ''A'', CHR ''F'', CHR 0xC3, CHR 0x89]
          = toLowerCase [CHR ''c'', CHR ''a'', CHR ''f'', CHR 0xC3, CHR 0xA9]"
    by (simp only: toLowerCase_def b d f)
  then show ?thesis
    by (simp add: js_includes_def)
qed

lemma matchesSearch_searchable:
  "searchable p \<Longrightarrow> \<exists>v. matchesSearch term p = Inr v \<and> truthy v = lowerMatch term p"
  by (auto simp: searchable_def matchesSearch_def lowerMatch_def split: jsval.splits)

lemma filter_posts_total:
  "\<forall>p \<in> set ps. \<exists>v. f p = Inr v \<and> truthy v = P p \<Longrightarrow> filter_posts f ps = Inr (filter P ps)"
  by (induction ps) auto

lemma filteredPosts_searchable:
  "\<forall>p \<in> set (posts s). searchable p \<Longrightarrow>
   filteredPosts s = Inr (filter (lowerMatch (searchTerm s)) (posts s))"
  unfolding filteredPosts_def
  by (rule filter_posts_total) (simp add: matchesSearch_searchable)

lemma lowerMatch_ascii:
  "ascii term \<Longrightarrow> asciiPost p \<Longrightarrow> lowerMatch term p = spec_matches term p"
  by (auto simp: asciiPost_def lowerMatch_def spec_matches_def includes_lower_ascii
           split: jsval.splits)

lemma lowerMatch_empty: "searchable p \<Longrightarrow> lowerMatch [] p"
  by (auto simp: searchable_def lowerMatch_def toLowerCase_Nil js_includes_def
           split: jsval.splits)

text \<open>
  The posts the mapper makes of rows with a string title and a string, null or absent
  description are typed as the filter needs them; a post whose title is not a string
  makes the filter throw.
\<close>

lemma processPost_searchable:
  assumes "processPost (JObj a fs) = Inr p" and "map_of fs ''title'' = Some (JStr t)"
      and "map_of fs ''description'' = None \<or> map_of fs ''description'' = Some JNull
           \<or> map_of fs ''description'' = Some (JStr d)"
  shows "searchable p"
  using assms by (auto simp: processPost_def searchable_def)

lemma filteredPosts_title_missing:
  "title p = JUndefined \<Longrightarrow> filteredPosts (s\<lparr>posts := p # ps\<rparr>) = Inl TypeError"
  by (simp add: filteredPosts_def matchesSearch_def)

text \<open>
  Claim C2. On a posts collection typed as \<^verbatim>\<open>Post[]\<close> (every title a string, every
  description a string or absent) and for every search string, the filter does not
  throw and returns exactly the posts, in their order, whose lower-cased title or
  lower-cased description contains the lower-cased search string; when the search
  string, the titles and the descriptions are ASCII, these are exactly the posts whose
  title or description contains the search string as a case-insensitive substring;
  with the empty search string it returns every post; a post without a description is
  returned if and only if its lower-cased title contains the lower-cased search string.
  The filter is a function of the state that returns a new list: the state's \<open>posts\<close>
  is only read.
\<close>

theorem search_filter:
  assumes "\<forall>p \<in> set (posts s). searchable p"
  shows "\<exists>qs. filteredPosts s = Inr qs
           \<and> qs = filter (lowerMatch (searchTerm s)) (posts s)
           \<and> subseq qs (posts s)
           \<and> (ascii (searchTerm s) \<and> (\<forall>p \<in> set (posts s). asciiPost p)
                \<longrightarrow> qs = filter (spec_matches (searchTerm s)) (posts s))
           \<and> (searchTerm s = [] \<longrightarrow> qs = posts s)
           \<and> (\<forall>p \<in> set (posts s). nullish (description p) \<longrightarrow>
                 (p \<in> set qs \<longleftrightarrow>
                    (\<exists>t. title p = JStr t
                         \<and> js_includes (toLowerCase t) (toLowerCase (searchTerm s)))))"
proof -
  let ?qs = "filter (lowerMatch (searchTerm s)) (posts s)"
  have 1: "filteredPosts s = Inr ?qs"
    using assms by (rule filteredPosts_searchable)
  have 2: "subseq ?qs (posts s)" by simp
  have 3: "ascii (searchTerm s) \<and> (\<forall>p \<in> set (posts s). asciiPost p)
             \<longrightarrow> ?qs = filter (spec_matches (searchTerm s)) (posts s)"
    by (auto simp: lowerMatch_ascii intro: filter_cong)
  have 4: "searchTerm s = [] \<longrightarrow> ?qs = posts s"
    using assms by (auto simp: lowerMatch_empty)
  have 5: "\<forall>p \<in> set (posts s). nullish (description p) \<longrightarrow>
             (p \<in> set ?qs \<longleftrightarrow>
                (\<exists>t. title p = JStr t
                     \<and> js_includes (toLowerCase t) (toLowerCase (searchTerm s))))"
    by (auto simp: lowerMatch_def split: jsval.splits)
  from 1 2 3 4 5 show ?thesis by blast
qed

theorem search_filter_witness:
  "posts (exampleState\<lparr>searchTerm := ''dark''\<rparr>) = [examplePost1, examplePost2]
   \<and> searchable examplePost1 \<and> searchable examplePost2
   \<and> ascii ''dark'' \<and> asciiPost examplePost1 \<and> asciiPost examplePost2
   \<and> nullish (description examplePost1)
   \<and> filteredPosts (exampleState\<lparr>searchTerm := ''dark''\<rparr>) = Inr [examplePost1]
   \<and> ci_substring ''dark'' ''Dark Mode''"
proof -
  let ?s = "exampleState\<lparr>searchTerm := ''dark''\<rparr>"
  have l: "posts ?s = [examplePost1, examplePost2]" and st: "searchTerm ?s = ''dark''"
    by (simp_all add: exampleState_def)
  have a: "searchable examplePost1" "searchable examplePost2"
    by (simp_all add: examplePost1_def examplePost2_def searchable_def)
  have b: "ascii ''dark''" "asciiPost examplePost1" "asciiPost examplePost2"
    by (simp_all add: examplePost1_def examplePost2_def asciiPost_def ascii_def)
  have n: "nullish (description examplePost1)"
    by (simp add: examplePost1_def)
  have m: "lowerMatch ''dark'' examplePost1" "\<not> lowerMatch ''dark'' examplePost2"
    by (simp_all add: lowerMatch_def examplePost1_def examplePost2_def js_includes_def
          sublist_bytes [of _ "toLowerCase _"] bytes_toLowerCase_ascii ascii_def
          toLowerAscii_def sublist_code prefix_code)
  from l a have h: "\<forall>p \<in> set (posts ?s). searchable p"
    by simp
  from l b have h2: "ascii (searchTerm ?s) \<and> (\<forall>p \<in> set (posts ?s). asciiPost p)"
    by (simp add: st)
  from search_filter [OF h] h2
  have e: "filteredPosts ?s = Inr (filter (lowerMatch (searchTerm ?s)) (posts ?s))"
    and g: "filter (lowerMatch (searchTerm ?s)) (posts ?s)
              = filter (spec_matches (searchTerm ?s)) (posts ?s)"
    by auto
  from e l st m have r: "filteredPosts ?s = Inr [examplePost1]"
    by simp
  from g l st m have "spec_matches ''dark'' examplePost1"
    by (simp split: if_splits)
  then have c: "ci_substring ''dark'' ''Dark Mode''"
    by (simp add: spec_matches_def examplePost1_def)
  from l a b n r c show ?thesis by blast
qed

text \<open>
  The claim as it was stated, with containment as a case-insensitive substring for
  every text, fails on Greek: the title holds the search string itself, a capital
  sigma, yet the filter returns no post, because the sigma that ends the title is
  lower-cased to the final sigma and the search string to the other small sigma.
\<close>

theorem search_filter_counterexample:
  "posts greekState = [greekPost]
   \<and> searchTerm greekState = capitalSigma
   \<and> searchable greekPost
   \<and> title greekPost = JStr odos
   \<and> sublist capitalSigma odos
   \<and> ci_substring capitalSigma odos
   \<and> spec_matches capitalSigma greekPost
   \<and> filteredPosts greekState = Inr []"
proof -
  have l: "posts greekState = [greekPost]" and st: "searchTerm greekState = capitalSigma"
    by (simp_all add: greekState_def)
  have a: "searchable greekPost" and t: "title greekPost = JStr odos"
    by (simp_all add: greekPost_def examplePost1_def searchable_def)
  have o: "odos = [CHR 0xCE, CHR 0x9F, CHR 0xCE, CHR 0x94, CHR 0xCE, CHR 0x9F] @ capitalSigma @ []"
    by (simp add: odos_def capitalSigma_def)
  then have sub: "sublist capitalSigma odos"
    unfolding sublist_def by blast
  have "list_all2 same_letter capitalSigma capitalSigma"
    by (simp add: capitalSigma_def same_letter_def)
  with o have ci: "ci_substring capitalSigma odos"
    unfolding ci_substring_def by blast
  then have sm: "spec_matches capitalSigma greekPost"
    by (simp add: spec_matches_def t)
  have "\<not> js_includes (toLowerCase odos) (toLowerCase capitalSigma)"
    by (simp add: js_includes_def sublist_bytes [of _ "toLowerCase _"] odos_lower
          capitalSigma_lower sublist_code prefix_code)
  then have m: "\<not> lowerMatch capitalSigma greekPost"
    by (simp add: lowerMatch_def greekPost_def examplePost1_def)
  from l a have "\<forall>p \<in> set (posts greekState). searchable p"
    by simp
  then have "filteredPosts greekState = Inr (filter (lowerMatch (searchTerm greekState)) (posts greekState))"
    by (rule filteredPosts_searchable)
  with l st m have r: "filteredPosts greekState = Inr []"
    by simp
  from l st a t sub ci sm r show ?thesis by blast
qed

subsection \<open>The vote-change callback\<close>

lemma strict_eq_refl: "strict_eq x x"
  by (cases x) simp_all

lemma posts_onVoteChange:
  "posts (onVoteChange post n v s) =
     map (\<lambda>p. if strict_eq (post_id p) (post_id post)
               then p\<lparr>vote_count := JNum n, user_voted := v\<rparr> else p) (posts s)"
  by (simp add: onVoteChange_def)

text \<open>
  Claim C8. After the vote-change callback of a rendered post, with any new count and
  voted flag, the posts list has the same length and the same ids at the same
  positions; a post whose id is not the rendered post's id is unchanged; a post whose
  id is the rendered post's id is the old post with \<open>vote_count\<close> and \<open>user_voted\<close>
  replaced by the new values, every other field as before; in particular the rendered
  post itself, where it is in the list, gets the new values.
\<close>

theorem vote_change_frame:
  "length (posts (onVoteChange post n v s)) = length (posts s)
   \<and> map post_id (posts (onVoteChange post n v s)) = map post_id (posts s)
   \<and> (\<forall>i < length (posts s).
        (strict_eq (post_id (posts s ! i)) (post_id post) \<longrightarrow>
           posts (onVoteChange post n v s) ! i
             = (posts s ! i)\<lparr>vote_count := JNum n, user_voted := v\<rparr>)
      \<and> (\<not> strict_eq (post_id (posts s ! i)) (post_id post) \<longrightarrow>
           posts (onVoteChange post n v s) ! i = posts s ! i)
      \<and> (posts s ! i = post \<longrightarrow>
           vote_count (posts (onVoteChange post n v s) ! i) = JNum n
           \<and> user_voted (posts (onVoteChange post n v s) ! i) = v)
      \<and> post_id (posts (onVoteChange post n v s) ! i) = post_id (posts s ! i)
      \<and> title (posts (onVoteChange post n v s) ! i) = title (posts s ! i)
      \<and> description (posts (onVoteChange post n v s) ! i) = description (posts s ! i)
      \<and> author_email (posts (onVoteChange post n v s) ! i) = author_email (posts s ! i)
      \<and> status (posts (onVoteChange post n v s) ! i) = status (posts s ! i)
      \<and> created_at (posts (onVoteChange post n v s) ! i) = created_at (posts s ! i)
      \<and> comment_count (posts (onVoteChange post n v s) ! i) = comment_count (posts s ! i))"
  by (auto simp: posts_onVoteChange strict_eq_refl)

theorem vote_change_frame_witness:
  "1 < length (posts exampleState)
   \<and> strict_eq (post_id (posts exampleState ! 0)) (post_id examplePost1)
   \<and> \<not> strict_eq (post_id (posts exampleState ! 1)) (post_id examplePost1)
   \<and> posts (onVoteChange examplePost1 5 True exampleState)
       = [examplePost1\<lparr>vote_count := JNum 5, user_voted := True\<rparr>, examplePost2]"
  using vote_change_frame [of examplePost1 5 True exampleState]
  by (simp add: exampleState_def examplePost1_def examplePost2_def onVoteChange_def)

text \<open>
  Claim C10. When no post of the list has the id of the callback's post, the callback
  leaves the state, and so the posts list, exactly as it was.
\<close>

theorem vote_change_unknown_id:
  assumes "\<forall>p \<in> set (posts s). \<not> strict_eq (post_id p) (post_id post)"
  shows "onVoteChange post n v s = s"
proof -
  have "map (\<lambda>p. if strict_eq (post_id p) (post_id post)
                  then p\<lparr>vote_count := JNum n, user_voted := v\<rparr> else p) (posts s) = posts s"
    using assms by (simp add: map_idI)
  then show ?thesis by (simp add: onVoteChange_def)
qed

theorem vote_change_unknown_id_witness:
  "posts exampleState = [examplePost1, examplePost2]
   \<and> \<not> strict_eq (post_id examplePost1) (post_id (examplePost2\<lparr>post_id := JStr ''p9''\<rparr>))
   \<and> \<not> strict_eq (post_id examplePost2) (post_id (examplePost2\<lparr>post_id := JStr ''p9''\<rparr>))
   \<and> onVoteChange (examplePost2\<lparr>post_id := JStr ''p9''\<rparr>) 5 True exampleState = exampleState"
proof -
  have l: "posts exampleState = [examplePost1, examplePost2]"
    by (simp add: exampleState_def)
  have a: "\<not> strict_eq (post_id examplePost1) (post_id (examplePost2\<lparr>post_id := JStr ''p9''\<rparr>))"
          "\<not> strict_eq (post_id examplePost2) (post_id (examplePost2\<lparr>post_id := JStr ''p9''\<rparr>))"
    by (simp_all add: examplePost1_def examplePost2_def)
  from l a have h: "\<forall>p \<in> set (posts exampleState).
             \<not> strict_eq (post_id p) (post_id (examplePost2\<lparr>post_id := JStr ''p9''\<rparr>))"
    by simp
  from vote_change_unknown_id [OF h] l a show ?thesis by blast
qed

subsection \<open>The load sequence\<close>

lemma q_from_projectQuery: "q_from (projectQuery slug) = ''projects''"
  by (simp add: projectQuery_def single_row_def eq_pred_def select_cols_def from_table_def)

lemma q_from_boardQuery: "q_from (boardQuery pid) = ''boards''"
  by (simp add: boardQuery_def single_row_def eq_pred_def select_cols_def from_table_def)

lemma q_from_postsQuery: "q_from (postsQuery bid sf sb) = ''posts''"
  by (simp add: postsQuery_def Let_def order_by_def is_pred_def eq_pred_def select_cols_def from_table_def)

lemma q_filters_postsQuery:
  "q_filters (postsQuery bid sf sb) =
     [Eq ''board_id'' bid, Is ''duplicate_of'' JNull] @ (if sf \<noteq> ''all'' then [Eq ''status'' (JStr sf)] else [])"
  by (simp add: postsQuery_def Let_def order_by_def is_pred_def eq_pred_def select_cols_def from_table_def)

lemma q_order_postsQuery:
  "q_order (postsQuery bid sf sb) =
     (if sb = ''votes'' then [(''vote_count'', False)]
      else if sb = ''newest'' then [(''created_at'', False)]
      else if sb = ''oldest'' then [(''created_at'', True)]
      else [])"
  by (simp add: postsQuery_def Let_def order_by_def is_pred_def eq_pred_def select_cols_def from_table_def)

lemma loading_cleared: "loading (fst (loadProjectAndPosts supabase slug s)) = False"
  by (auto simp: loadProjectAndPosts_def split: option.splits prod.splits)

lemma tryBlock_issued_posts:
  "tryBlock c slug s = (k, s', es) \<Longrightarrow> Issued q \<in> set es \<Longrightarrow> q_from q = ''posts''
   \<Longrightarrow> \<exists>bid. q = postsQuery bid (statusFilter s) (sortBy s)"
  using q_from_projectQuery [of slug]
  by (auto simp: tryBlock_def Let_def q_from_boardQuery split: sum.splits if_splits)

lemma load_issued_posts:
  "Issued q \<in> set (snd (loadProjectAndPosts supabase slug s)) \<Longrightarrow> q_from q = ''posts''
   \<Longrightarrow> \<exists>bid. q = postsQuery bid (statusFilter s) (sortBy s)"
  by (auto simp: loadProjectAndPosts_def split: option.splits prod.splits dest: tryBlock_issued_posts)

text \<open>The posts query is sent as soon as the project and the board have resolved.\<close>

lemma load_sends_posts_query:
  assumes "c (projectQuery slug) = Inr r1" and "\<not> truthy (r_error r1)"
      and "\<not> nullish (r_data r1)"
      and "c (boardQuery (get (r_data r1) ''id'')) = Inr r2"
      and "\<not> truthy (r_error r2)" and "truthy (r_data r2)"
  shows "Issued (postsQuery (get (r_data r2) ''id'') (statusFilter s) (sortBy s))
           \<in> set (snd (loadProjectAndPosts (Some c) slug s))"
  using assms
  by (auto simp: loadProjectAndPosts_def tryBlock_def Let_def member_def split: sum.splits)

lemma tryBlock_posts_error:
  "tryBlock c slug s = (k, s', es) \<Longrightarrow> Issued q \<in> set es \<Longrightarrow> q_from q = ''posts''
   \<Longrightarrow> c q = Inr r \<Longrightarrow> truthy (r_error r)
   \<Longrightarrow> k = None \<and> ToastError ''Error loading posts'' \<in> set es \<and> posts s' = posts s"
  using q_from_projectQuery [of slug]
  by (auto simp: tryBlock_def Let_def q_from_boardQuery split: sum.splits if_splits)

text \<open>
  Claim C3. Every query on the table \<^verbatim>\<open>posts\<close> that the load sequence sends carries
  the equality predicate \<^verbatim>\<open>status = statusFilter\<close> when \<open>statusFilter\<close> is not
  \<^verbatim>\<open>'all'\<close>, and carries no predicate on the column \<^verbatim>\<open>status\<close> when it is \<^verbatim>\<open>'all'\<close>.
\<close>

theorem status_predicate:
  assumes "Issued q \<in> set (snd (loadProjectAndPosts supabase slug s))" and "q_from q = ''posts''"
  shows "(statusFilter s \<noteq> ''all'' \<longrightarrow> Eq ''status'' (JStr (statusFilter s)) \<in> set (q_filters q))
       \<and> (statusFilter s = ''all'' \<longrightarrow> (\<forall>f \<in> set (q_filters q). predicate_column f \<noteq> ''status''))"
proof -
  from assms obtain bid where "q = postsQuery bid (statusFilter s) (sortBy s)"
    using load_issued_posts by blast
  then show ?thesis by (simp add: q_filters_postsQuery)
qed

theorem status_predicate_witness:
  "Issued (postsQuery (JStr ''b1'') ''planned'' ''votes'')
     \<in> set (snd (loadProjectAndPosts (Some exampleBackend) ''acme'' (initialState\<lparr>statusFilter := ''planned''\<rparr>)))
   \<and> q_from (postsQuery (JStr ''b1'') ''planned'' ''votes'') = ''posts''
   \<and> statusFilter (initialState\<lparr>statusFilter := ''planned''\<rparr>) \<noteq> ''all''
   \<and> Eq ''status'' (JStr ''planned'') \<in> set (q_filters (postsQuery (JStr ''b1'') ''planned'' ''votes''))
   \<and> Issued (postsQuery (JStr ''b1'') ''all'' ''votes'')
     \<in> set (snd (loadProjectAndPosts (Some exampleBackend) ''acme'' initialState))
   \<and> statusFilter initialState = ''all''
   \<and> ''status'' \<notin> predicate_column ` set (q_filters (postsQuery (JStr ''b1'') ''all'' ''votes''))"
proof -
  have a: "Issued (postsQuery (JStr ''b1'') ''planned'' ''votes'')
     \<in> set (snd (loadProjectAndPosts (Some exampleBackend) ''acme'' (initialState\<lparr>statusFilter := ''planned''\<rparr>)))"
    by code_simp
  have b: "Issued (postsQuery (JStr ''b1'') ''all'' ''votes'')
     \<in> set (snd (loadProjectAndPosts (Some exampleBackend) ''acme'' initialState))"
    by code_simp
  have f: "q_from (postsQuery (JStr ''b1'') ''planned'' ''votes'') = ''posts''"
          "q_from (postsQuery (JStr ''b1'') ''all'' ''votes'') = ''posts''"
    by (simp_all add: q_from_postsQuery)
  have s: "statusFilter (initialState\<lparr>statusFilter := ''planned''\<rparr>) = ''planned''"
          "statusFilter initialState = ''all''"
    by (simp_all add: initialState_def)
  from status_predicate [OF a f(1)] s(1)
  have 1: "Eq ''status'' (JStr ''planned'') \<in> set (q_filters (postsQuery (JStr ''b1'') ''planned'' ''votes''))"
    by simp
  from status_predicate [OF b f(2)] s(2)
  have 2: "''status'' \<notin> predicate_column ` set (q_filters (postsQuery (JStr ''b1'') ''all'' ''votes''))"
    by auto
  have 3: "statusFilter (initialState\<lparr>statusFilter := ''planned''\<rparr>) \<noteq> ''all''"
    by simp
  from a b f(1) s(2) 1 2 3 show ?thesis by blast
qed

text \<open>
  Claim C4. Every query on the table \<^verbatim>\<open>posts\<close> that the load sequence sends is
  ordered by \<^verbatim>\<open>vote_count\<close> descending when \<open>sortBy\<close> is \<^verbatim>\<open>'votes'\<close>, by \<^verbatim>\<open>created_at\<close>
  descending when it is \<^verbatim>\<open>'newest'\<close>, by \<^verbatim>\<open>created_at\<close> ascending when it is
  \<^verbatim>\<open>'oldest'\<close>, and has no ordering for any other value.
\<close>

theorem sort_ordering:
  assumes "Issued q \<in> set (snd (loadProjectAndPosts supabase slug s))" and "q_from q = ''posts''"
  shows "q_order q =
           (if sortBy s = ''votes'' then [(''vote_count'', False)]
            else if sortBy s = ''newest'' then [(''created_at'', False)]
            else if sortBy s = ''oldest'' then [(''created_at'', True)]
            else [])"
proof -
  from assms obtain bid where "q = postsQuery bid (statusFilter s) (sortBy s)"
    using load_issued_posts by blast
  then show ?thesis by (simp only: q_order_postsQuery)
qed

theorem sort_ordering_witness:
  "Issued (postsQuery (JStr ''b1'') ''all'' ''oldest'')
     \<in> set (snd (loadProjectAndPosts (Some exampleBackend) ''acme'' (initialState\<lparr>sortBy := ''oldest''\<rparr>)))
   \<and> q_from (postsQuery (JStr ''b1'') ''all'' ''oldest'') = ''posts''
   \<and> q_order (postsQuery (JStr ''b1'') ''all'' ''oldest'') = [(''created_at'', True)]"
proof -
  have a: "Issued (postsQuery (JStr ''b1'') ''all'' ''oldest'')
     \<in> set (snd (loadProjectAndPosts (Some exampleBackend) ''acme'' (initialState\<lparr>sortBy := ''oldest''\<rparr>)))"
    by code_simp
  have f: "q_from (postsQuery (JStr ''b1'') ''all'' ''oldest'') = ''posts''"
    by (simp add: q_from_postsQuery)
  have s: "sortBy (initialState\<lparr>sortBy := ''oldest''\<rparr>) = ''oldest''"
    by simp
  from sort_ordering [OF a f] a f s show ?thesis by simp
qed

text \<open>
  Claim C5. However the load sequence ends (no client, a failed project, board or
  posts lookup, an exception, or success) the loading flag is false afterwards; and
  when the posts query it sent resolves with an error, the toast
  \<^verbatim>\<open>Error loading posts\<close> is shown and the posts of the state are those from before.
\<close>

theorem posts_error_and_loading:
  "loading (fst (loadProjectAndPosts supabase slug s)) = False
   \<and> (Issued q \<in> set (snd (loadProjectAndPosts (Some c) slug s)) \<and> q_from q = ''posts''
        \<and> c q = Inr r \<and> truthy (r_error r)
      \<longrightarrow> ToastError ''Error loading posts'' \<in> set (snd (loadProjectAndPosts (Some c) slug s))
          \<and> posts (fst (loadProjectAndPosts (Some c) slug s)) = posts s)"
proof -
  have "ToastError ''Error loading posts'' \<in> set (snd (loadProjectAndPosts (Some c) slug s))
          \<and> posts (fst (loadProjectAndPosts (Some c) slug s)) = posts s"
    if h: "Issued q \<in> set (snd (loadProjectAndPosts (Some c) slug s))" "q_from q = ''posts''"
          "c q = Inr r" "truthy (r_error r)"
  proof -
    obtain k s' es where t: "tryBlock c slug s = (k, s', es)"
      by (cases "tryBlock c slug s") auto
    with h(1) have "Issued q \<in> set es"
      by (auto simp: loadProjectAndPosts_def split: option.splits)
    from tryBlock_posts_error [OF t this h(2) h(3) h(4)] t show ?thesis
      by (simp add: loadProjectAndPosts_def)
  qed
  then show ?thesis by (simp add: loading_cleared)
qed

theorem posts_error_and_loading_witness:
  "Issued (postsQuery (JStr ''b1'') ''all'' ''votes'')
     \<in> set (snd (loadProjectAndPosts (Some postsFailBackend) ''acme'' (exampleState\<lparr>loading := True\<rparr>)))
   \<and> q_from (postsQuery (JStr ''b1'') ''all'' ''votes'') = ''posts''
   \<and> postsFailBackend (postsQuery (JStr ''b1'') ''all'' ''votes'')
        = Inr \<lparr> r_data = JNull, r_error = JObj 3 [(''message'', JStr ''failed'')] \<rparr>
   \<and> truthy (r_error \<lparr> r_data = JNull, r_error = JObj 3 [(''message'', JStr ''failed'')] \<rparr>)
   \<and> ToastError ''Error loading posts''
        \<in> set (snd (loadProjectAndPosts (Some postsFailBackend) ''acme'' (exampleState\<lparr>loading := True\<rparr>)))
   \<and> posts (fst (loadProjectAndPosts (Some postsFailBackend) ''acme'' (exampleState\<lparr>loading := True\<rparr>)))
        = [examplePost1, examplePost2]
   \<and> loading (fst (loadProjectAndPosts (Some postsFailBackend) ''acme'' (exampleState\<lparr>loading := True\<rparr>)))
        = False"
proof -
  let ?s = "exampleState\<lparr>loading := True\<rparr>"
  let ?q = "postsQuery (JStr ''b1'') ''all'' ''votes''"
  let ?r = "\<lparr> r_data = JNull, r_error = JObj 3 [(''message'', JStr ''failed'')] \<rparr>"
  have a: "Issued ?q \<in> set (snd (loadProjectAndPosts (Some postsFailBackend) ''acme'' ?s))"
    by code_simp
  have f: "q_from ?q = ''posts''"
    by (simp add: q_from_postsQuery)
  have c: "postsFailBackend ?q = Inr ?r"
    by (simp add: postsFailBackend_def exampleClient_def failed_def q_from_postsQuery)
  have t: "truthy (r_error ?r)" by simp
  have p: "posts ?s = [examplePost1, examplePost2]"
    by (simp add: exampleState_def)
  from posts_error_and_loading [of "Some postsFailBackend" "''acme''" ?s ?q postsFailBackend ?r]
       a f c t p
  show ?thesis by simp
qed

text \<open>
  A response to the project lookup with neither an error nor a row, which the contract
  of \<^verbatim>\<open>.single()\<close> excludes, passes the test of \<^verbatim>\<open>projectError\<close>: the project is set to
  the null data, the read of \<^verbatim>\<open>projectData.id\<close> throws, and the \<^verbatim>\<open>catch\<close> clause reports it.
\<close>

lemma project_lookup_outside_contract:
  assumes "c (projectQuery slug) = Inr r" and "\<not> truthy (r_error r)" and "nullish (r_data r)"
  shows "loadProjectAndPosts (Some c) slug s =
           (s\<lparr>project := r_data r, loading := False\<rparr>,
            [Issued (projectQuery slug), ConsoleError ''Error:'',
             ToastError ''Something went wrong''])"
  using assms by (simp add: loadProjectAndPosts_def tryBlock_def Let_def member_def)

text \<open>
  Claim C6. When the project lookup resolves with an error, or with no row, which
  \<^verbatim>\<open>.single()\<close> reports as an error, the load sequence sends the project query only,
  shows the toast \<^verbatim>\<open>Project not found\<close>, navigates to \<^verbatim>\<open>/\<close>, and changes nothing
  in the state but the loading flag: the project is not set, and no board or posts query
  is sent.
\<close>

theorem project_not_found:
  assumes "c (projectQuery slug) = Inr r"
      and "truthy (r_error r) \<or> (single_response r \<and> nullish (r_data r))"
  shows "loadProjectAndPosts (Some c) slug s =
           (s\<lparr>loading := False\<rparr>,
            [Issued (projectQuery slug), ToastError ''Project not found'', RouterPush ''/''])
         \<and> project (fst (loadProjectAndPosts (Some c) slug s)) = project s
         \<and> (\<forall>q. Issued q \<in> set (snd (loadProjectAndPosts (Some c) slug s)) \<longrightarrow> q = projectQuery slug)"
proof -
  from assms(2) have "truthy (r_error r)" by (auto simp: single_response_def)
  with assms(1) have "loadProjectAndPosts (Some c) slug s =
           (s\<lparr>loading := False\<rparr>,
            [Issued (projectQuery slug), ToastError ''Project not found'', RouterPush ''/''])"
    by (simp add: loadProjectAndPosts_def tryBlock_def Let_def)
  then show ?thesis by simp
qed

theorem project_not_found_witness:
  "exampleClient failed failed failed (projectQuery ''nope'')
     = Inr \<lparr> r_data = JNull, r_error = JObj 3 [(''message'', JStr ''failed'')] \<rparr>
   \<and> truthy (r_error \<lparr> r_data = JNull, r_error = JObj 3 [(''message'', JStr ''failed'')] \<rparr>)
   \<and> single_response \<lparr> r_data = JNull, r_error = JObj 3 [(''message'', JStr ''failed'')] \<rparr>
   \<and> nullish (r_data \<lparr> r_data = JNull, r_error = JObj 3 [(''message'', JStr ''failed'')] \<rparr>)
   \<and> loadProjectAndPosts (Some (exampleClient failed failed failed)) ''nope'' initialState
       = (initialState\<lparr>loading := False\<rparr>,
          [Issued (projectQuery ''nope''), ToastError ''Project not found'', RouterPush ''/''])
   \<and> project (fst (loadProjectAndPosts (Some (exampleClient failed failed failed)) ''nope'' initialState))
       = project initialState"
proof -
  let ?c = "exampleClient failed failed failed"
  let ?r = "\<lparr> r_data = JNull, r_error = JObj 3 [(''message'', JStr ''failed'')] \<rparr>"
  have c: "?c (projectQuery ''nope'') = Inr ?r"
    by (simp add: exampleClient_def failed_def q_from_projectQuery)
  have u: "truthy (r_error ?r)" "single_response ?r" "nullish (r_data ?r)"
    by (simp_all add: single_response_def)
  from u have t: "truthy (r_error ?r) \<or> (single_response ?r \<and> nullish (r_data ?r))"
    by blast
  note th = project_not_found [of ?c "''nope''" ?r initialState, OF c t]
  from th c u show ?thesis by blast
qed

text \<open>
  Claim C7. When the project lookup resolves with a row and no error and the board
  lookup resolves with an error or without a board, the load sequence shows the toast
  \<^verbatim>\<open>Board not found\<close> and ends with the project set to the row, no posts query sent
  and \<open>boardId\<close> as it was; where \<open>boardId\<close> was null (as it is at first, line 73) it
  is still null, and the submission form is not mounted whatever \<open>showPostForm\<close> is.
\<close>

theorem board_not_found:
  assumes "c (projectQuery slug) = Inr r1" and "\<not> truthy (r_error r1)" and "\<not> nullish (r_data r1)"
      and "c (boardQuery (get (r_data r1) ''id'')) = Inr r2"
      and "truthy (r_error r2) \<or> \<not> truthy (r_data r2)"
  shows "loadProjectAndPosts (Some c) slug s =
           (s\<lparr>project := r_data r1, loading := False\<rparr>,
            [Issued (projectQuery slug), Issued (boardQuery (get (r_data r1) ''id'')),
             ToastError ''Board not found''])
         \<and> project (fst (loadProjectAndPosts (Some c) slug s)) = r_data r1
         \<and> (\<forall>q. Issued q \<in> set (snd (loadProjectAndPosts (Some c) slug s)) \<longrightarrow> q_from q \<noteq> ''posts'')
         \<and> boardId (fst (loadProjectAndPosts (Some c) slug s)) = boardId s
         \<and> (boardId s = JNull \<longrightarrow>
              (\<forall>b. \<not> formMounted ((fst (loadProjectAndPosts (Some c) slug s))\<lparr>showPostForm := b\<rparr>)))"
proof -
  from assms have "loadProjectAndPosts (Some c) slug s =
           (s\<lparr>project := r_data r1, loading := False\<rparr>,
            [Issued (projectQuery slug), Issued (boardQuery (get (r_data r1) ''id'')),
             ToastError ''Board not found''])"
    by (auto simp: loadProjectAndPosts_def tryBlock_def Let_def member_def)
  then show ?thesis
    by (auto simp: q_from_projectQuery q_from_boardQuery formMounted_def)
qed

theorem board_not_found_witness:
  "exampleClient (found exampleProject) failed failed (projectQuery ''acme'')
     = Inr \<lparr> r_data = exampleProject, r_error = JNull \<rparr>
   \<and> \<not> truthy (r_error \<lparr> r_data = exampleProject, r_error = JNull \<rparr>)
   \<and> \<not> nullish (r_data \<lparr> r_data = exampleProject, r_error = JNull \<rparr>)
   \<and> exampleClient (found exampleProject) failed failed
        (boardQuery (get (r_data \<lparr> r_data = exampleProject, r_error = JNull \<rparr>) ''id''))
     = Inr \<lparr> r_data = JNull, r_error = JObj 3 [(''message'', JStr ''failed'')] \<rparr>
   \<and> truthy (r_error \<lparr> r_data = JNull, r_error = JObj 3 [(''message'', JStr ''failed'')] \<rparr>)
   \<and> boardId initialState = JNull
   \<and> loadProjectAndPosts (Some (exampleClient (found exampleProject) failed failed)) ''acme'' initialState
       = (initialState\<lparr>project := r_data \<lparr> r_data = exampleProject, r_error = JNull \<rparr>, loading := False\<rparr>,
          [Issued (projectQuery ''acme''),
           Issued (boardQuery (get (r_data \<lparr> r_data = exampleProject, r_error = JNull \<rparr>) ''id'')),
           ToastError ''Board not found''])
   \<and> \<not> formMounted ((fst (loadProjectAndPosts (Some (exampleClient (found exampleProject) failed failed))
                              ''acme'' initialState))\<lparr>showPostForm := True\<rparr>)"
proof -
  let ?c = "exampleClient (found exampleProject) failed failed"
  let ?r1 = "\<lparr> r_data = exampleProject, r_error = JNull \<rparr>"
  let ?r2 = "\<lparr> r_data = JNull, r_error = JObj 3 [(''message'', JStr ''failed'')] \<rparr>"
  have p: "?c (projectQuery ''acme'') = Inr ?r1"
    by (simp add: exampleClient_def found_def q_from_projectQuery)
  have e: "\<not> truthy (r_error ?r1)" by simp
  have n: "\<not> nullish (r_data ?r1)" by (simp add: exampleProject_def)
  have b: "?c (boardQuery (get (r_data ?r1) ''id'')) = Inr ?r2"
    by (simp add: exampleClient_def failed_def q_from_boardQuery)
  have u: "truthy (r_error ?r2)" by simp
  then have t: "truthy (r_error ?r2) \<or> \<not> truthy (r_data ?r2)" by blast
  have i: "boardId initialState = JNull"
    by (simp add: initialState_def)
  note th = board_not_found [of ?c "''acme''" ?r1 ?r2 initialState, OF p e n b t]
  from th p e n b u i show ?thesis by blast
qed

text \<open>
  The claim as it was stated, with \<open>boardId\<close> null and the form closed after every
  failed board lookup, fails on a reload: after a first load that succeeded, \<open>boardId\<close>
  holds the board's id; a reload whose board lookup fails shows the toast
  \<^verbatim>\<open>Board not found\<close> and leaves \<open>boardId\<close> as it was, so the form is mounted.
\<close>

theorem board_not_found_counterexample:
  "boardId loadedState = JStr ''b1''
   \<and> snd (loadProjectAndPosts (Some boardFailBackend) ''acme'' loadedState)
       = [Issued (projectQuery ''acme''), Issued (boardQuery (JStr ''proj1'')),
          ToastError ''Board not found'']
   \<and> boardId (fst (loadProjectAndPosts (Some boardFailBackend) ''acme'' loadedState))
       = JStr ''b1''
   \<and> formMounted (fst (loadProjectAndPosts (Some boardFailBackend) ''acme'' loadedState))"
proof -
  have 1: "boardId loadedState = JStr ''b1''"
    by code_simp
  have 2: "snd (loadProjectAndPosts (Some boardFailBackend) ''acme'' loadedState)
       = [Issued (projectQuery ''acme''), Issued (boardQuery (JStr ''proj1'')),
          ToastError ''Board not found'']"
    by code_simp
  have 3: "boardId (fst (loadProjectAndPosts (Some boardFailBackend) ''acme'' loadedState))
       = JStr ''b1''"
    by code_simp
  have 4: "formMounted (fst (loadProjectAndPosts (Some boardFailBackend) ''acme'' loadedState))"
    by code_simp
  from 1 2 3 4 show ?thesis by blast
qed

end
